theory Spec2Isabelle
  imports Complex_Main "HOL-Library.Word"
begin

unbundle bit_operations_syntax

section \<open>Data model of the manipulator-map runtime\<close>

text \<open>
  The C code works on a pointer graph: maps own groups, groups own manipulators, the
  interaction context of a map points at manipulators, manipulators point back at their
  group, groups at their (shared) group type. Every struct is a record, every kind of
  object lives in its own store (a function from addresses to records), a nullable
  pointer is an \<open>option\<close>. None of the functions modelled here frees a manipulator, a
  group or a map, so every address of a store denotes a live object.
\<close>

type_synonym mpr_ptr = nat
type_synonym mgroup_ptr = nat
type_synonym wgt_ptr = nat
type_synonym mmap_ptr = nat

text \<open>\<open>bContext\<close>: only the window, area and region handles are read by this file.\<close>

record bContext =
  wm_window :: nat
  wm_area :: nat
  wm_region :: nat

record wmEvent =
  mval :: "int \<times> int"

text \<open>
  \<open>wmManipulatorType\<close>: the optional callbacks of a manipulator type. A field says whether
  the function pointer is non-NULL; what a callback does is external to the file.
\<close>

record wmManipulatorType =
  type_draw_select :: bool
  type_test_select :: bool
  type_invoke :: bool
  type_modal :: bool
  type_select :: bool
  type_cursor_get :: bool

record wmManipulator =
  name :: string
  parent_mgroup :: mgroup_ptr
  mpr_type :: wmManipulatorType
  flag :: "32 word"
  state :: "32 word"
  highlight_part :: int
  custom_modal :: bool
  interaction_data :: "nat option"
  op_data_type :: "nat option"
  op_data_ptr :: nat

record wmManipulatorGroupType =
  wgt_flag :: "32 word"
  wgt_poll :: bool
  wgt_refresh :: bool
  wgt_draw_prepare :: bool
  wgt_type_update_flag :: "8 word"

record wmManipulatorGroup =
  mgroup_type :: wgt_ptr
  manipulators :: "mpr_ptr list"

text \<open>
  \<open>wmManipulatorMap\<close>; \<open>highlight\<close>, \<open>modal\<close>, \<open>selected\<close> and \<open>selected_len\<close> are the
  members of its \<open>mmap_context\<close>. \<open>selected\<close> is a heap array (NULL or its elements), its
  length is tracked apart in \<open>selected_len\<close>.
\<close>

record wmManipulatorMap =
  groups :: "mgroup_ptr list"
  update_flag :: "8 word"
  highlight :: "mpr_ptr option"
  modal :: "mpr_ptr option"
  selected :: "mpr_ptr list option"
  selected_len :: int

text \<open>
  \<open>wmManipulatorMapType\<close>; a \<open>wmManipulatorGroupTypeRef\<close> of \<open>grouptype_refs\<close> holds nothing
  but the pointer to its group type.
\<close>

record wmManipulatorMapType =
  spaceid :: int
  regionid :: int
  grouptype_refs :: "wgt_ptr list"
  mmt_type_update_flag :: "8 word"

text \<open>
  Calls into the host (window manager, screen editor, GL, the callbacks of manipulator
  and group types) are recorded in call order.
\<close>

datatype rcti = Rcti (xmin: int) (xmax: int) (ymin: int) (ymax: int)

datatype gpu_select_mode =
  GPU_SELECT_ALL | GPU_SELECT_NEAREST_FIRST_PASS | GPU_SELECT_NEAREST_SECOND_PASS

datatype sel_action = SEL_TOGGLE | SEL_SELECT | SEL_INVERT | SEL_DESELECT

datatype host_call =
    WM_cursor_set nat int
  | ED_region_tag_redraw nat
  | WM_event_add_mousemove
  | WM_cursor_grab_enable nat
  | WM_cursor_grab_disable nat
  | Call_select mpr_ptr sel_action
  | Call_refresh mgroup_ptr
  | Call_draw_prepare mgroup_ptr
  | Call_ensure_initialized mgroup_ptr
  | Call_update mpr_ptr bool
  | Call_draw mpr_ptr
  | Call_draw_select mpr_ptr int
  | GL_depth_test bool
  | GL_multisample bool
  | View3d_needs_opengl
  | View3d_setup_view "rcti option"
  | GPU_select_begin rcti gpu_select_mode int
  | GPU_select_end
  | Group_unlink nat wgt_ptr
  | Init_runtime_keymap wgt_ptr
  | Init_runtime nat wgt_ptr

record world =
  mpr_heap :: "mpr_ptr \<Rightarrow> wmManipulator"
  mgroup_heap :: "mgroup_ptr \<Rightarrow> wmManipulatorGroup"
  wgt_heap :: "wgt_ptr \<Rightarrow> wmManipulatorGroupType"
  mmap_heap :: "mmap_ptr \<Rightarrow> wmManipulatorMap"
  manipulatormaptypes :: "wmManipulatorMapType list"
  wm_mmap_type_update_flag :: "8 word"
  G_background :: bool
  calls :: "host_call list"

text \<open>
  Every dereference of the C code that can fail, and every assertion, is a branch of the
  model.
\<close>

datatype error =
  Null_dereference | Index_out_of_bounds | Assertion_failed | Float_to_int_out_of_range

type_synonym pick_buffer = "nat list"

text \<open>
  The collaborators of the file that are not among the sources, as parameters: what the
  callbacks of manipulator and group types return, the sibling helpers of
  \<open>wm_manipulator.c\<close> and \<open>wm_manipulator_group.c\<close>, the GPU selection backend, the hash
  table, the multisample user preference and the constant \<open>CURSOR_STD\<close>. \<open>ghash_values\<close> gives the values of a
  \<open>GHash\<close> in iteration order, for the sequence of \<open>BLI_ghash_insert\<close> calls that built it
  (the order is unreliable, as the source says). \<open>type_invoke_call\<close> and
  \<open>WM_operator_name_call_ptr\<close> can re-enter this file and change the map, which
  \<open>wm_manipulatormap_modal_set\<close> anticipates: they transform the world. Every other
  callback is recorded as a call.
\<close>

record host =
  CURSOR_STD :: int
  type_cursor_get_result :: "wmManipulator \<Rightarrow> int"
  wgt_poll_result :: "bContext \<Rightarrow> wgt_ptr \<Rightarrow> bool"
  ghash_values :: "(string \<times> mpr_ptr) list \<Rightarrow> mpr_ptr list"
  wm_manipulator_is_visible :: "world \<Rightarrow> mpr_ptr \<Rightarrow> 32 word"
  wm_manipulatorgroup_is_visible :: "world \<Rightarrow> mgroup_ptr \<Rightarrow> bContext \<Rightarrow> bool"
  wm_manipulatorgroup_is_visible_in_drawstep :: "world \<Rightarrow> mgroup_ptr \<Rightarrow> int \<Rightarrow> bool"
  wm_manipulatorgroup_intersectable_manipulators_to_list ::
    "world \<Rightarrow> mgroup_ptr \<Rightarrow> mpr_ptr list \<Rightarrow> mpr_ptr list"
  wm_manipulatorgroup_find_intersected_mainpulator ::
    "world \<Rightarrow> mgroup_ptr \<Rightarrow> bContext \<Rightarrow> wmEvent \<Rightarrow> int \<Rightarrow> mpr_ptr option \<times> int"
  GPU_select_query_check_active :: bool
  GPU_select_end_result :: "world \<Rightarrow> pick_buffer \<Rightarrow> int \<times> pick_buffer"
  GPU_select_buffer_near_result :: "pick_buffer \<Rightarrow> int \<Rightarrow> int option"
  U_ogl_multisamples_enabled :: bool
  type_invoke_call :: "bContext \<Rightarrow> mpr_ptr \<Rightarrow> wmEvent \<Rightarrow> world \<Rightarrow> world"
  WM_operator_name_call_ptr :: "bContext \<Rightarrow> nat option \<Rightarrow> nat \<Rightarrow> world \<Rightarrow> world"

definition mpr_update :: "world \<Rightarrow> mpr_ptr \<Rightarrow> (wmManipulator \<Rightarrow> wmManipulator) \<Rightarrow> world" where
  "mpr_update w a f = w\<lparr>mpr_heap := (mpr_heap w)(a := f (mpr_heap w a))\<rparr>"

definition mmap_update :: "world \<Rightarrow> mmap_ptr \<Rightarrow> (wmManipulatorMap \<Rightarrow> wmManipulatorMap) \<Rightarrow> world" where
  "mmap_update w m f = w\<lparr>mmap_heap := (mmap_heap w)(m := f (mmap_heap w m))\<rparr>"

definition wgt_update :: "world \<Rightarrow> wgt_ptr \<Rightarrow> (wmManipulatorGroupType \<Rightarrow> wmManipulatorGroupType) \<Rightarrow> world" where
  "wgt_update w t f = w\<lparr>wgt_heap := (wgt_heap w)(t := f (wgt_heap w t))\<rparr>"

definition emit :: "world \<Rightarrow> host_call \<Rightarrow> world" where
  "emit w c = w\<lparr>calls := calls w @ [c]\<rparr>"

text \<open>
  Modelled from the spec: the header that declares \<open>eWM_ManipulatorState\<close>,
  \<open>eWM_ManipulatorFlag\<close> and \<open>eWM_ManipulatorGroupTypeFlag\<close> is not among the sources. The
  spec (sections 3, 4.3 and 4.6) names the highlight, modal and selection state bits of a
  manipulator, its hidden flag, the 3D, selectable, depth-tested and draw-all-while-modal
  flags of a group type, the update and draw bits of a manipulator's visibility, and the
  init, remove and keymap-init bits of a type's update flag; each family is taken as
  distinct single bits.
\<close>

definition WM_MANIPULATOR_STATE_HIGHLIGHT :: "32 word" where
  "WM_MANIPULATOR_STATE_HIGHLIGHT = 1"

definition WM_MANIPULATOR_STATE_MODAL :: "32 word" where
  "WM_MANIPULATOR_STATE_MODAL = 2"

definition WM_MANIPULATOR_STATE_SELECT :: "32 word" where
  "WM_MANIPULATOR_STATE_SELECT = 4"

definition WM_MANIPULATOR_HIDDEN :: "32 word" where
  "WM_MANIPULATOR_HIDDEN = 8"

definition WM_MANIPULATORGROUPTYPE_3D :: "32 word" where
  "WM_MANIPULATORGROUPTYPE_3D = 1"

definition WM_MANIPULATORGROUPTYPE_DEPTH_3D :: "32 word" where
  "WM_MANIPULATORGROUPTYPE_DEPTH_3D = 4"

definition WM_MANIPULATORGROUPTYPE_SELECT :: "32 word" where
  "WM_MANIPULATORGROUPTYPE_SELECT = 8"

definition WM_MANIPULATORGROUPTYPE_DRAW_MODAL_ALL :: "32 word" where
  "WM_MANIPULATORGROUPTYPE_DRAW_MODAL_ALL = 32"

definition WM_MANIPULATOR_IS_VISIBLE_UPDATE :: "32 word" where
  "WM_MANIPULATOR_IS_VISIBLE_UPDATE = 1"

definition WM_MANIPULATOR_IS_VISIBLE_DRAW :: "32 word" where
  "WM_MANIPULATOR_IS_VISIBLE_DRAW = 2"

definition WM_MANIPULATORMAPTYPE_UPDATE_INIT :: "8 word" where
  "WM_MANIPULATORMAPTYPE_UPDATE_INIT = 1"

definition WM_MANIPULATORMAPTYPE_UPDATE_REMOVE :: "8 word" where
  "WM_MANIPULATORMAPTYPE_UPDATE_REMOVE = 2"

definition WM_MANIPULATORMAPTYPE_KEYMAP_INIT :: "8 word" where
  "WM_MANIPULATORMAPTYPE_KEYMAP_INIT = 4"

text \<open>The enumerations of the file itself.\<close>

definition WM_MANIPULATORMAPTYPE_GLOBAL_UPDATE_INIT :: "8 word" where
  "WM_MANIPULATORMAPTYPE_GLOBAL_UPDATE_INIT = 1"

definition WM_MANIPULATORMAPTYPE_GLOBAL_UPDATE_REMOVE :: "8 word" where
  "WM_MANIPULATORMAPTYPE_GLOBAL_UPDATE_REMOVE = 2"

definition MANIPULATORMAP_REFRESH :: "8 word" where
  "MANIPULATORMAP_REFRESH = 1"

section \<open>Highlight\<close>

text \<open>\<open>wm_manipulatormap_highlight_set(mmap, C, mpr, part)\<close>; \<open>C\<close> and \<open>mpr\<close> may be NULL.\<close>

definition wm_manipulatormap_highlight_set ::
  "host \<Rightarrow> world \<Rightarrow> mmap_ptr \<Rightarrow> bContext option \<Rightarrow> mpr_ptr option \<Rightarrow> int \<Rightarrow> world" where
  "wm_manipulatormap_highlight_set h w mmap C mpr part =
    (if mpr \<noteq> highlight (mmap_heap w mmap) \<or>
        (case mpr of None \<Rightarrow> False | Some a \<Rightarrow> part \<noteq> highlight_part (mpr_heap w a))
     then
       let w1 = (case highlight (mmap_heap w mmap) of
                   None \<Rightarrow> w
                 | Some p \<Rightarrow>
                     mpr_update w p (\<lambda>x. x\<lparr>state := state x AND NOT WM_MANIPULATOR_STATE_HIGHLIGHT,
                                            highlight_part := 0\<rparr>));
           w2 = mmap_update w1 mmap (\<lambda>x. x\<lparr>highlight := mpr\<rparr>);
           w3 = (case mpr of
                   Some a \<Rightarrow>
                     let w' = mpr_update w2 a
                                (\<lambda>x. x\<lparr>state := state x OR WM_MANIPULATOR_STATE_HIGHLIGHT,
                                       highlight_part := part\<rparr>)
                     in (case C of
                           Some c \<Rightarrow>
                             if type_cursor_get (mpr_type (mpr_heap w' a))
                             then emit w' (WM_cursor_set (wm_window c)
                                             (type_cursor_get_result h (mpr_heap w' a)))
                             else w'
                         | None \<Rightarrow> w')
                 | None \<Rightarrow>
                     (case C of
                        Some c \<Rightarrow> emit w2 (WM_cursor_set (wm_window c) (CURSOR_STD h))
                      | None \<Rightarrow> w2))
       in (case C of
             Some c \<Rightarrow> emit w3 (ED_region_tag_redraw (wm_region c))
           | None \<Rightarrow> w3)
     else w)"

section \<open>Modal\<close>

text \<open>
  \<open>wm_manipulatormap_modal_set(mmap, C, event, mpr)\<close>. Three steps of its activate branch
  have a name here: setting the modal bit and the modal slot, the call of the type's
  \<open>invoke\<close> callback (which the source writes out in both arms), and, for a manipulator
  with a bound operator, the state right after \<open>WM_operator_name_call_ptr\<close> returns, where
  the source re-reads the modal slot of the map.
\<close>

definition modal_set_activated :: "world \<Rightarrow> mmap_ptr \<Rightarrow> mpr_ptr \<Rightarrow> world" where
  "modal_set_activated w mmap a =
    (let w1 = mpr_update w a (\<lambda>x. x\<lparr>state := state x OR WM_MANIPULATOR_STATE_MODAL\<rparr>)
     in mmap_update w1 mmap (\<lambda>x. x\<lparr>modal := Some a\<rparr>))"

definition modal_set_invoke :: "host \<Rightarrow> world \<Rightarrow> bContext \<Rightarrow> wmEvent \<Rightarrow> mpr_ptr \<Rightarrow> world" where
  "modal_set_invoke h w c event a =
    (if type_invoke (mpr_type (mpr_heap w a)) \<and>
        (type_modal (mpr_type (mpr_heap w a)) \<or> custom_modal (mpr_heap w a))
     then type_invoke_call h c a event w else w)"

definition modal_set_operator_called ::
  "host \<Rightarrow> world \<Rightarrow> mmap_ptr \<Rightarrow> bContext \<Rightarrow> wmEvent \<Rightarrow> mpr_ptr \<Rightarrow> world" where
  "modal_set_operator_called h w mmap c event a =
    (let w3 = modal_set_invoke h (modal_set_activated w mmap a) c event a
     in WM_operator_name_call_ptr h c (op_data_type (mpr_heap w3 a)) (op_data_ptr (mpr_heap w3 a)) w3)"

definition wm_manipulatormap_modal_set ::
  "host \<Rightarrow> world \<Rightarrow> mmap_ptr \<Rightarrow> bContext option \<Rightarrow> wmEvent \<Rightarrow> mpr_ptr option \<Rightarrow> world" where
  "wm_manipulatormap_modal_set h w mmap C event mpr =
    (case (mpr, C) of
       (Some a, Some c) \<Rightarrow>
         (case op_data_type (mpr_heap (modal_set_activated w mmap a) a) of
            Some ot \<Rightarrow>
              let w4 = modal_set_operator_called h w mmap c event a
              in if modal (mmap_heap w4 mmap) = None
                 then mpr_update w4 a
                        (\<lambda>x. x\<lparr>state := state x AND NOT WM_MANIPULATOR_STATE_MODAL,
                               interaction_data := None\<rparr>)
                 else w4
          | None \<Rightarrow>
              emit (modal_set_invoke h (modal_set_activated w mmap a) c event a)
                (WM_cursor_grab_enable (wm_window c)))
     | _ \<Rightarrow>
         let w1 = (case modal (mmap_heap w mmap) of
                     Some p \<Rightarrow>
                       mpr_update w p
                         (\<lambda>x. x\<lparr>state := state x AND NOT WM_MANIPULATOR_STATE_MODAL,
                                interaction_data := None\<rparr>)
                   | None \<Rightarrow> w);
             w2 = mmap_update w1 mmap (\<lambda>x. x\<lparr>modal := None\<rparr>)
         in (case C of
               Some c \<Rightarrow>
                 emit (emit (emit w2 (WM_cursor_grab_disable (wm_window c)))
                         (ED_region_tag_redraw (wm_region c)))
                   WM_event_add_mousemove
             | None \<Rightarrow> w2))"

section \<open>Selection\<close>

definition wm_manipulatormap_selected_clear :: "world \<Rightarrow> mmap_ptr \<Rightarrow> world" where
  "wm_manipulatormap_selected_clear w mmap =
     mmap_update w mmap (\<lambda>x. x\<lparr>selected := None, selected_len := 0\<rparr>)"


text \<open>
  The loop of \<open>wm_manipulatormap_deselect_all\<close> over the slots \<open>0 .. selected_len - 1\<close> of
  the array: reading a slot beyond the array is an error. A slot is set to NULL once its
  manipulator is deselected and the array is freed right after the loop, so the slots are
  not written here.
\<close>

fun deselect_slots :: "world \<Rightarrow> mpr_ptr list \<Rightarrow> nat \<Rightarrow> error + world" where
  "deselect_slots w sel 0 = Inr w"
| "deselect_slots w [] (Suc n) = Inl Index_out_of_bounds"
| "deselect_slots w (a # sel) (Suc n) =
     deselect_slots
       (mpr_update w a (\<lambda>x. x\<lparr>state := state x AND NOT WM_MANIPULATOR_STATE_SELECT\<rparr>)) sel n"

text \<open>
  \<open>wm_manipulatormap_deselect_all(mmap, sel)\<close>; its only caller passes the address of the
  map's own \<open>selected\<close> member for \<open>sel\<close>.
\<close>

definition wm_manipulatormap_deselect_all :: "world \<Rightarrow> mmap_ptr \<Rightarrow> error + (bool \<times> world)" where
  "wm_manipulatormap_deselect_all w mmap =
    (case selected (mmap_heap w mmap) of
       None \<Rightarrow> Inr (False, w)
     | Some sel \<Rightarrow>
         if selected_len (mmap_heap w mmap) = 0 then Inr (False, w)
         else (case deselect_slots w sel (nat (selected_len (mmap_heap w mmap))) of
                 Inl e \<Rightarrow> Inl e
               | Inr w' \<Rightarrow> Inr (True, wm_manipulatormap_selected_clear w' mmap)))"

definition manipulator_selectable_poll :: "world \<Rightarrow> mpr_ptr \<Rightarrow> bool" where
  "manipulator_selectable_poll w a =
     (wgt_flag (wgt_heap w (mgroup_type (mgroup_heap w (parent_mgroup (mpr_heap w a)))))
        AND WM_MANIPULATORGROUPTYPE_SELECT \<noteq> 0)"

text \<open>
  \<open>WM_manipulatormap_manipulator_hash_new\<close>: the key and value of every \<open>BLI_ghash_insert\<close>
  it makes, in call order.
\<close>

definition WM_manipulatormap_manipulator_hash_new ::
  "host \<Rightarrow> world \<Rightarrow> bContext \<Rightarrow> mmap_ptr \<Rightarrow> (world \<Rightarrow> mpr_ptr \<Rightarrow> bool) option \<Rightarrow> bool \<Rightarrow>
   (string \<times> mpr_ptr) list" where
  "WM_manipulatormap_manipulator_hash_new h w C mmap poll include_hidden =
     concat (map
       (\<lambda>g. if \<not> wgt_poll (wgt_heap w (mgroup_type (mgroup_heap w g))) \<or>
                wgt_poll_result h C (mgroup_type (mgroup_heap w g))
            then map (\<lambda>a. (name (mpr_heap w a), a))
                   (filter
                      (\<lambda>a. (include_hidden \<or> flag (mpr_heap w a) AND WM_MANIPULATOR_HIDDEN = 0) \<and>
                           (case poll of None \<Rightarrow> True | Some p \<Rightarrow> p w a))
                      (manipulators (mgroup_heap w g)))
            else [])
       (groups (mmap_heap w mmap)))"

text \<open>The body of the \<open>GHASH_ITER_INDEX\<close> loop of \<open>wm_manipulatormap_select_all_intern\<close>.\<close>

fun select_all_iter :: "world \<Rightarrow> sel_action \<Rightarrow> mpr_ptr list \<Rightarrow> bool \<Rightarrow> bool \<times> world" where
  "select_all_iter w action [] changed = (changed, w)"
| "select_all_iter w action (a # rest) changed =
     (let changed' = (if state (mpr_heap w a) AND WM_MANIPULATOR_STATE_SELECT = 0
                      then True else changed);
          w1 = mpr_update w a (\<lambda>x. x\<lparr>state := state x OR WM_MANIPULATOR_STATE_SELECT\<rparr>);
          w2 = (if type_select (mpr_type (mpr_heap w1 a))
                then emit w1 (Call_select a action) else w1)
      in select_all_iter w2 action rest changed')"

text \<open>
  \<open>wm_manipulatormap_select_all_intern\<close>. The array is reallocated to the size of the hash
  and slot \<open>i\<close> receives the \<open>i\<close>-th value of the iteration, so after the loop it holds the
  values in iteration order. Slot 0 is then read whatever the size.
\<close>

definition wm_manipulatormap_select_all_intern ::
  "host \<Rightarrow> world \<Rightarrow> bContext \<Rightarrow> mmap_ptr \<Rightarrow> sel_action \<Rightarrow> error + (bool \<times> world)" where
  "wm_manipulatormap_select_all_intern h w C mmap action =
    (let vals = ghash_values h
                  (WM_manipulatormap_manipulator_hash_new h w C mmap
                     (Some manipulator_selectable_poll) True);
         w1 = mmap_update w mmap (\<lambda>x. x\<lparr>selected_len := int (length vals)\<rparr>);
         (changed, w2) = select_all_iter w1 action vals False;
         w3 = mmap_update w2 mmap (\<lambda>x. x\<lparr>selected := Some vals\<rparr>)
     in (case vals of
           [] \<Rightarrow> Inl Index_out_of_bounds
         | a # _ \<Rightarrow>
             Inr (changed,
                  wm_manipulatormap_highlight_set h w3 mmap (Some C) (Some a)
                    (highlight_part (mpr_heap w3 a)))))"

definition WM_manipulatormap_select_all ::
  "host \<Rightarrow> world \<Rightarrow> bContext \<Rightarrow> mmap_ptr \<Rightarrow> sel_action \<Rightarrow> error + (bool \<times> world)" where
  "WM_manipulatormap_select_all h w C mmap action =
    (case (case action of
             SEL_SELECT \<Rightarrow> wm_manipulatormap_select_all_intern h w C mmap action
           | SEL_DESELECT \<Rightarrow> wm_manipulatormap_deselect_all w mmap
           | _ \<Rightarrow> Inl Assertion_failed) of
       Inl e \<Rightarrow> Inl e
     | Inr (changed, w') \<Rightarrow>
         Inr (changed, if changed then emit w' WM_event_add_mousemove else w'))"

section \<open>Draw pipeline\<close>

definition manipulatormap_tag_updated :: "world \<Rightarrow> mmap_ptr \<Rightarrow> world" where
  "manipulatormap_tag_updated w mmap = mmap_update w mmap (\<lambda>x. x\<lparr>update_flag := 0\<rparr>)"

definition WM_manipulatormap_tag_refresh :: "world \<Rightarrow> mmap_ptr option \<Rightarrow> world" where
  "WM_manipulatormap_tag_refresh w mmap =
    (case mmap of
       None \<Rightarrow> w
     | Some m \<Rightarrow> mmap_update w m (\<lambda>x. x\<lparr>update_flag := update_flag x OR MANIPULATORMAP_REFRESH\<rparr>))"

text \<open>
  \<open>manipulator_prepare_drawing\<close>: the result, the world and the draw list
  (\<open>BLI_addhead\<close> puts a manipulator in front).
\<close>

definition manipulator_prepare_drawing ::
  "host \<Rightarrow> world \<Rightarrow> mmap_ptr \<Rightarrow> mpr_ptr \<Rightarrow> bContext \<Rightarrow> mpr_ptr list \<Rightarrow>
   bool \<times> world \<times> mpr_ptr list" where
  "manipulator_prepare_drawing h w mmap mpr C draw_manipulators =
    (let do_draw = wm_manipulator_is_visible h w mpr
     in if do_draw = 0 then (False, w, draw_manipulators)
        else
          let w1 = (if do_draw AND WM_MANIPULATOR_IS_VISIBLE_UPDATE \<noteq> 0
                    then emit w (Call_update mpr
                           (update_flag (mmap_heap w mmap) AND MANIPULATORMAP_REFRESH \<noteq> 0))
                    else w);
              dl = (if do_draw AND WM_MANIPULATOR_IS_VISIBLE_DRAW \<noteq> 0
                    then mpr # draw_manipulators else draw_manipulators)
          in (True, w1, dl))"

fun prepare_drawing_manipulators ::
  "host \<Rightarrow> world \<Rightarrow> mmap_ptr \<Rightarrow> bContext \<Rightarrow> mpr_ptr list \<Rightarrow> mpr_ptr list \<Rightarrow>
   world \<times> mpr_ptr list" where
  "prepare_drawing_manipulators h w mmap C [] dl = (w, dl)"
| "prepare_drawing_manipulators h w mmap C (mpr # rest) dl =
     (case manipulator_prepare_drawing h w mmap mpr C dl of
        (_, w1, dl1) \<Rightarrow> prepare_drawing_manipulators h w1 mmap C rest dl1)"

fun prepare_drawing_groups ::
  "host \<Rightarrow> world \<Rightarrow> mmap_ptr \<Rightarrow> bContext \<Rightarrow> int \<Rightarrow> mgroup_ptr list \<Rightarrow> mpr_ptr list \<Rightarrow>
   world \<times> mpr_ptr list" where
  "prepare_drawing_groups h w mmap C drawstep [] dl = (w, dl)"
| "prepare_drawing_groups h w mmap C drawstep (g # rest) dl =
     (if \<not> wm_manipulatorgroup_is_visible_in_drawstep h w g drawstep \<or>
         \<not> wm_manipulatorgroup_is_visible h w g C
      then prepare_drawing_groups h w mmap C drawstep rest dl
      else
        let w1 = emit w (Call_ensure_initialized g);
            w2 = (if update_flag (mmap_heap w1 mmap) AND MANIPULATORMAP_REFRESH \<noteq> 0 \<and>
                     wgt_refresh (wgt_heap w1 (mgroup_type (mgroup_heap w1 g)))
                  then emit w1 (Call_refresh g) else w1);
            w3 = (if wgt_draw_prepare (wgt_heap w2 (mgroup_type (mgroup_heap w2 g)))
                  then emit w2 (Call_draw_prepare g) else w2)
        in (case prepare_drawing_manipulators h w3 mmap C (manipulators (mgroup_heap w3 g)) dl of
              (w4, dl4) \<Rightarrow> prepare_drawing_groups h w4 mmap C drawstep rest dl4))"

definition manipulatormap_prepare_drawing ::
  "host \<Rightarrow> world \<Rightarrow> mmap_ptr option \<Rightarrow> bContext \<Rightarrow> mpr_ptr list \<Rightarrow> int \<Rightarrow>
   world \<times> mpr_ptr list" where
  "manipulatormap_prepare_drawing h w mmap C draw_manipulators drawstep =
    (case mmap of
       None \<Rightarrow> (w, draw_manipulators)
     | Some m \<Rightarrow>
         if groups (mmap_heap w m) = [] then (w, draw_manipulators)
         else
           (case (case modal (mmap_heap w m) of
                    None \<Rightarrow> None
                  | Some mpr_modal \<Rightarrow>
                      if wgt_flag (wgt_heap w (mgroup_type
                                     (mgroup_heap w (parent_mgroup (mpr_heap w mpr_modal)))))
                           AND WM_MANIPULATORGROUPTYPE_DRAW_MODAL_ALL = 0
                      then Some mpr_modal else None) of
              Some mpr_modal \<Rightarrow>
                (case manipulator_prepare_drawing h w m mpr_modal C draw_manipulators of
                   (ok, w1, dl1) \<Rightarrow>
                     (if ok then manipulatormap_tag_updated w1 m else w1, dl1))
            | None \<Rightarrow>
                (case prepare_drawing_groups h w m C drawstep (groups (mmap_heap w m))
                        draw_manipulators of
                   (w1, dl1) \<Rightarrow> (manipulatormap_tag_updated w1 m, dl1))))"

text \<open>
  The loop of \<open>manipulators_draw_list\<close>: it draws and frees link after link, so nothing
  of the list is left.
\<close>

fun draw_list_links :: "world \<Rightarrow> mpr_ptr list \<Rightarrow> bool \<Rightarrow> world \<times> bool" where
  "draw_list_links w [] is_depth_prev = (w, is_depth_prev)"
| "draw_list_links w (mpr # rest) is_depth_prev =
     (let is_depth0 = (wgt_flag (wgt_heap w (mgroup_type
                                   (mgroup_heap w (parent_mgroup (mpr_heap w mpr)))))
                         AND WM_MANIPULATORGROUPTYPE_DEPTH_3D \<noteq> 0);
          is_depth = (if is_depth0 \<and> state (mpr_heap w mpr) AND WM_MANIPULATOR_STATE_HIGHLIGHT \<noteq> 0
                      then False else is_depth0);
          w1 = (if is_depth = is_depth_prev then w else emit w (GL_depth_test is_depth))
      in draw_list_links (emit w1 (Call_draw mpr)) rest is_depth)"

definition manipulators_draw_list ::
  "host \<Rightarrow> world \<Rightarrow> mmap_ptr option \<Rightarrow> bContext \<Rightarrow> mpr_ptr list \<Rightarrow> world \<times> mpr_ptr list" where
  "manipulators_draw_list h w mmap C draw_manipulators =
    (case mmap of
       None \<Rightarrow> (w, draw_manipulators)
     | Some m \<Rightarrow>
         if groups (mmap_heap w m) = [] then (w, draw_manipulators)
         else
           let draw_multisample = U_ogl_multisamples_enabled h;
               w1 = (if draw_multisample then emit w (GL_multisample True) else w)
           in (case draw_list_links w1 draw_manipulators False of
                 (w2, is_depth_prev) \<Rightarrow>
                   let w3 = (if is_depth_prev then emit w2 (GL_depth_test False) else w2);
                       w4 = (if draw_multisample then emit w3 (GL_multisample False) else w3)
                   in (w4, [])))"

text \<open>The per-frame entry point; its last line asserts that the draw list is empty.\<close>

definition WM_manipulatormap_draw ::
  "host \<Rightarrow> world \<Rightarrow> mmap_ptr option \<Rightarrow> bContext \<Rightarrow> int \<Rightarrow> error + world" where
  "WM_manipulatormap_draw h w mmap C drawstep =
    (case manipulatormap_prepare_drawing h w mmap C [] drawstep of
       (w1, dl1) \<Rightarrow>
         (case manipulators_draw_list h w1 mmap C dl1 of
            (w2, dl2) \<Rightarrow> if dl2 = [] then Inr w2 else Inl Assertion_failed))"

section \<open>Hit test\<close>

text \<open>
  The loop of \<open>manipulator_draw_select_3D_loop\<close>. \<open>draw_select\<close> is called through the
  type's function pointer without a check. The selection id is the index of the
  manipulator in the list, shifted by 8 bits.
\<close>

fun draw_select_3D_links :: "world \<Rightarrow> mpr_ptr list \<Rightarrow> int \<Rightarrow> bool \<Rightarrow> error + (world \<times> bool)" where
  "draw_select_3D_links w [] selectionbase is_depth_prev = Inr (w, is_depth_prev)"
| "draw_select_3D_links w (mpr # rest) selectionbase is_depth_prev =
     (let is_depth = (wgt_flag (wgt_heap w (mgroup_type
                                  (mgroup_heap w (parent_mgroup (mpr_heap w mpr)))))
                        AND WM_MANIPULATORGROUPTYPE_DEPTH_3D \<noteq> 0);
          w1 = (if is_depth = is_depth_prev then w else emit w (GL_depth_test is_depth))
      in if type_draw_select (mpr_type (mpr_heap w1 mpr))
         then draw_select_3D_links (emit w1 (Call_draw_select mpr (push_bit 8 selectionbase)))
                rest (selectionbase + 1) is_depth
         else Inl Null_dereference)"

definition manipulator_draw_select_3D_loop :: "world \<Rightarrow> mpr_ptr list \<Rightarrow> error + world" where
  "manipulator_draw_select_3D_loop w visible_manipulators =
    (case draw_select_3D_links w visible_manipulators 0 False of
       Inl e \<Rightarrow> Inl e
     | Inr (w1, is_depth_prev) \<Rightarrow>
         Inr (if is_depth_prev then emit w1 (GL_depth_test False) else w1))"

text \<open>
  Single precision. A \<open>float\<close> is the rational it denotes. \<open>float_round\<close> rounds a
  rational to the nearest one with a significand of 24 bits, ties to even, as every
  operation and conversion of binary32 does; the exponent is that of the value, not below
  -126. The magnitudes of this file stay below \<open>2 ^ 32\<close>, far from overflow.
\<close>

fun float_exponent_up :: "nat \<Rightarrow> rat \<Rightarrow> int" where
  "float_exponent_up 0 x = 0"
| "float_exponent_up (Suc n) x = (if x < 2 then 0 else float_exponent_up n (x / 2) + 1)"

fun float_exponent_down :: "nat \<Rightarrow> rat \<Rightarrow> int" where
  "float_exponent_down 0 x = 0"
| "float_exponent_down (Suc n) x = (if 1 \<le> x then 0 else float_exponent_down n (2 * x) - 1)"

definition float_exponent :: "rat \<Rightarrow> int" where
  "float_exponent x =
     (if 1 \<le> \<bar>x\<bar> then float_exponent_up 127 \<bar>x\<bar> else float_exponent_down 126 \<bar>x\<bar>)"

definition pow2 :: "int \<Rightarrow> rat" where
  "pow2 k = (if 0 \<le> k then 2 ^ nat k else 1 / 2 ^ nat (- k))"

definition round_half_even :: "rat \<Rightarrow> int" where
  "round_half_even q =
     (if q - of_int \<lfloor>q\<rfloor> < 1 / 2 then \<lfloor>q\<rfloor>
      else if 1 / 2 < q - of_int \<lfloor>q\<rfloor> then \<lfloor>q\<rfloor> + 1
      else if even \<lfloor>q\<rfloor> then \<lfloor>q\<rfloor> else \<lfloor>q\<rfloor> + 1)"

definition float_round :: "rat \<Rightarrow> rat" where
  "float_round x =
     (if x = 0 then 0
      else of_int (round_half_even (x / pow2 (float_exponent x - 23))) *
           pow2 (float_exponent x - 23))"

definition float_of_int :: "int \<Rightarrow> rat" where
  "float_of_int i = float_round (of_int i)"

definition float_add :: "rat \<Rightarrow> rat \<Rightarrow> rat" where
  "float_add a b = float_round (a + b)"

definition float_sub :: "rat \<Rightarrow> rat \<Rightarrow> rat" where
  "float_sub a b = float_round (a - b)"

definition float_mul :: "rat \<Rightarrow> rat \<Rightarrow> rat" where
  "float_mul a b = float_round (a * b)"

text \<open>
  The conversion of a \<open>float\<close> to an \<open>int\<close> truncates towards zero; it is undefined when
  the truncated value is not an \<open>int\<close> of 32 bits.
\<close>

definition float_to_int :: "rat \<Rightarrow> error + int" where
  "float_to_int x =
     (let i = (if 0 \<le> x then \<lfloor>x\<rfloor> else \<lceil>x\<rceil>)
      in if - (2 ^ 31) \<le> i \<and> i < 2 ^ 31 then Inr i else Inl Float_to_int_out_of_range)"

text \<open>
  The four assignments to \<open>rect\<close> of \<open>manipulator_find_intersected_3d_intern\<close>: the
  coordinate is converted to \<open>float\<close>, the hotspot subtracted or added in single
  precision, the result converted to \<open>int\<close>.
\<close>

definition intern_rect :: "int \<times> int \<Rightarrow> rat \<Rightarrow> error + rcti" where
  "intern_rect co hotspot =
     (case float_to_int (float_sub (float_of_int (fst co)) hotspot) of
        Inl e \<Rightarrow> Inl e
      | Inr x0 \<Rightarrow>
     (case float_to_int (float_add (float_of_int (fst co)) hotspot) of
        Inl e \<Rightarrow> Inl e
      | Inr x1 \<Rightarrow>
     (case float_to_int (float_sub (float_of_int (snd co)) hotspot) of
        Inl e \<Rightarrow> Inl e
      | Inr y0 \<Rightarrow>
     (case float_to_int (float_add (float_of_int (snd co)) hotspot) of
        Inl e \<Rightarrow> Inl e
      | Inr y1 \<Rightarrow> Inr (Rcti x0 x1 y0 y1)))))"

text \<open>
  \<open>manipulator_find_intersected_3d_intern\<close>: the hit id, or -1. \<open>GPU_select_end_result\<close>
  is what \<open>GPU_select_end\<close> returns (as the \<open>short\<close> the source stores it in) and leaves
  in the buffer, given the world (with the calls recorded so far) and the buffer before.
\<close>

definition manipulator_find_intersected_3d_intern ::
  "host \<Rightarrow> world \<Rightarrow> mpr_ptr list \<Rightarrow> bContext \<Rightarrow> int \<times> int \<Rightarrow> rat \<Rightarrow> error + (int \<times> world)" where
  "manipulator_find_intersected_3d_intern h w visible_manipulators C co hotspot =
    (let do_passes = GPU_select_query_check_active h
     in (case intern_rect co hotspot of
           Inl e \<Rightarrow> Inl e
         | Inr rect \<Rightarrow>
     (let w1 = emit w (View3d_setup_view (Some rect));
          w2 = emit w1 (GPU_select_begin rect
                          (if do_passes then GPU_SELECT_NEAREST_FIRST_PASS else GPU_SELECT_ALL) 0)
      in (case manipulator_draw_select_3D_loop w2 visible_manipulators of
            Inl e \<Rightarrow> Inl e
          | Inr w3 \<Rightarrow>
              (case GPU_select_end_result h w3 [] of
                 (hits, buffer) \<Rightarrow>
                   (case (if do_passes \<and> hits > 0
                          then (case manipulator_draw_select_3D_loop
                                       (emit (emit w3 GPU_select_end)
                                          (GPU_select_begin rect GPU_SELECT_NEAREST_SECOND_PASS hits))
                                       visible_manipulators of
                                  Inl e \<Rightarrow> Inl e
                                | Inr w5 \<Rightarrow>
                                    Inr (emit w5 GPU_select_end,
                                         snd (GPU_select_end_result h w5 buffer)))
                          else Inr (emit w3 GPU_select_end, buffer)) of
                      Inl e \<Rightarrow> Inl e
                    | Inr (w6, buffer') \<Rightarrow>
                        Inr (case GPU_select_buffer_near_result h buffer' hits of
                               None \<Rightarrow> - 1
                             | Some hit \<Rightarrow> hit,
                             emit w6 (View3d_setup_view None))))))))"

text \<open>
  Modelled from the spec: \<open>BLI_findlink\<close> is not among the sources; it yields the link at
  a list position (section 4.4: the manipulator by list position), NULL beyond the list.
\<close>

definition BLI_findlink :: "'a list \<Rightarrow> int \<Rightarrow> 'a option" where
  "BLI_findlink xs number =
     (if 0 \<le> number \<and> nat number < length xs then Some (xs ! nat number) else None)"

text \<open>
  \<open>manipulator_find_intersected_3d\<close>; \<open>14.0f\<close>, \<open>0.5f\<close> and \<open>0.2f\<close> are the single
  precision values of the literals, the products are taken in single precision.
\<close>

definition manipulator_find_intersected_3d ::
  "host \<Rightarrow> world \<Rightarrow> bContext \<Rightarrow> int \<times> int \<Rightarrow> mpr_ptr list \<Rightarrow>
   error + ((mpr_ptr option \<times> int) \<times> world)" where
  "manipulator_find_intersected_3d h w C co visible_manipulators =
    (let hotspot = float_round 14
     in (case manipulator_find_intersected_3d_intern h (emit w View3d_needs_opengl)
                visible_manipulators C co (float_mul (float_round (1 / 2)) hotspot) of
           Inl e \<Rightarrow> Inl e
         | Inr (ret, w1) \<Rightarrow>
             if ret \<noteq> - 1 then
               (case manipulator_find_intersected_3d_intern h w1 visible_manipulators C co
                       (float_mul (float_round (2 / 10)) hotspot) of
                  Inl e \<Rightarrow> Inl e
                | Inr (retsec, w2) \<Rightarrow>
                    let ret' = (if retsec \<noteq> - 1 then retsec else ret)
                    in (case BLI_findlink visible_manipulators (drop_bit 8 ret') of
                          None \<Rightarrow> Inl Null_dereference
                        | Some mpr \<Rightarrow> Inr ((Some mpr, ret' AND 255), w2)))
             else Inr ((None, 0), w1)))"

text \<open>
  The loop of \<open>wm_manipulatormap_highlight_find\<close> over the groups: the manipulator found
  (NULL unless a 2D group was hit, which leaves the loop), the 3D candidates collected
  and the part written so far.
\<close>

fun highlight_find_groups ::
  "host \<Rightarrow> world \<Rightarrow> bContext \<Rightarrow> wmEvent \<Rightarrow> mgroup_ptr list \<Rightarrow> mpr_ptr list \<Rightarrow> int \<Rightarrow>
   mpr_ptr option \<times> mpr_ptr list \<times> int" where
  "highlight_find_groups h w C event [] visible_3d_manipulators part =
     (None, visible_3d_manipulators, part)"
| "highlight_find_groups h w C event (g # rest) visible_3d_manipulators part =
     (if wm_manipulatorgroup_is_visible h w g C then
        if wgt_flag (wgt_heap w (mgroup_type (mgroup_heap w g))) AND WM_MANIPULATORGROUPTYPE_3D \<noteq> 0
        then highlight_find_groups h w C event rest
               (wm_manipulatorgroup_intersectable_manipulators_to_list h w g visible_3d_manipulators)
               part
        else (case wm_manipulatorgroup_find_intersected_mainpulator h w g C event part of
                (Some mpr, part') \<Rightarrow> (Some mpr, visible_3d_manipulators, part')
              | (None, part') \<Rightarrow>
                  highlight_find_groups h w C event rest visible_3d_manipulators part')
      else highlight_find_groups h w C event rest visible_3d_manipulators part)"

text \<open>
  \<open>wm_manipulatormap_highlight_find(mmap, C, event, r_part)\<close>: the manipulator returned
  and the value left in \<open>*r_part\<close>, which holds \<open>part\<close> at the call.
\<close>

definition wm_manipulatormap_highlight_find ::
  "host \<Rightarrow> world \<Rightarrow> mmap_ptr \<Rightarrow> bContext \<Rightarrow> wmEvent \<Rightarrow> int \<Rightarrow>
   error + ((mpr_ptr option \<times> int) \<times> world)" where
  "wm_manipulatormap_highlight_find h w mmap C event part =
    (case highlight_find_groups h w C event (groups (mmap_heap w mmap)) [] part of
       (mpr, visible_3d_manipulators, part') \<Rightarrow>
         if visible_3d_manipulators \<noteq> []
         then manipulator_find_intersected_3d h w C (mval event) visible_3d_manipulators
         else Inr ((mpr, part'), w))"

section \<open>Updates for dynamic type registration\<close>

definition WM_manipulatorconfig_update_tag_init :: "world \<Rightarrow> nat \<Rightarrow> wgt_ptr \<Rightarrow> world" where
  "WM_manipulatorconfig_update_tag_init w mmap_type wgt =
    (let bits = WM_MANIPULATORMAPTYPE_UPDATE_INIT OR WM_MANIPULATORMAPTYPE_KEYMAP_INIT;
         w1 = w\<lparr>manipulatormaptypes := (manipulatormaptypes w)
                  [mmap_type := (manipulatormaptypes w ! mmap_type)
                     \<lparr>mmt_type_update_flag :=
                        mmt_type_update_flag (manipulatormaptypes w ! mmap_type) OR bits\<rparr>]\<rparr>;
         w2 = wgt_update w1 wgt (\<lambda>t. t\<lparr>wgt_type_update_flag := wgt_type_update_flag t OR bits\<rparr>)
     in w2\<lparr>wm_mmap_type_update_flag :=
             wm_mmap_type_update_flag w2 OR WM_MANIPULATORMAPTYPE_GLOBAL_UPDATE_INIT\<rparr>)"

definition WM_manipulatorconfig_update_tag_remove :: "world \<Rightarrow> nat \<Rightarrow> wgt_ptr \<Rightarrow> world" where
  "WM_manipulatorconfig_update_tag_remove w mmap_type wgt =
    (let w1 = w\<lparr>manipulatormaptypes := (manipulatormaptypes w)
                  [mmap_type := (manipulatormaptypes w ! mmap_type)
                     \<lparr>mmt_type_update_flag :=
                        mmt_type_update_flag (manipulatormaptypes w ! mmap_type)
                          OR WM_MANIPULATORMAPTYPE_UPDATE_REMOVE\<rparr>]\<rparr>;
         w2 = wgt_update w1 wgt
                (\<lambda>t. t\<lparr>wgt_type_update_flag :=
                         wgt_type_update_flag t OR WM_MANIPULATORMAPTYPE_UPDATE_REMOVE\<rparr>)
     in w2\<lparr>wm_mmap_type_update_flag :=
             wm_mmap_type_update_flag w2 OR WM_MANIPULATORMAPTYPE_GLOBAL_UPDATE_REMOVE\<rparr>)"

text \<open>
  Modelled from the spec: \<open>WM_manipulatormaptype_group_unlink\<close> is not among the sources.
  It unlinks the group-type-ref of a group type from its map type (section 4.6); the map
  type is given by its position in \<open>manipulatormaptypes\<close>.
\<close>

definition WM_manipulatormaptype_group_unlink :: "world \<Rightarrow> nat \<Rightarrow> wgt_ptr \<Rightarrow> world" where
  "WM_manipulatormaptype_group_unlink w mmap_type wgt =
     emit (w\<lparr>manipulatormaptypes := (manipulatormaptypes w)
               [mmap_type := (manipulatormaptypes w ! mmap_type)
                  \<lparr>grouptype_refs :=
                     remove1 wgt (grouptype_refs (manipulatormaptypes w ! mmap_type))\<rparr>]\<rparr>)
       (Group_unlink mmap_type wgt)"

text \<open>
  The removal block of \<open>WM_manipulatorconfig_update\<close>. Its inner loop reads the next ref
  before it unlinks one, so it visits the refs the map type had when the loop began.
\<close>

fun update_remove_refs :: "world \<Rightarrow> nat \<Rightarrow> wgt_ptr list \<Rightarrow> world" where
  "update_remove_refs w mmap_type [] = w"
| "update_remove_refs w mmap_type (wgt # rest) =
     update_remove_refs (WM_manipulatormaptype_group_unlink w mmap_type wgt) mmap_type rest"

fun update_remove_types :: "world \<Rightarrow> nat list \<Rightarrow> world" where
  "update_remove_types w [] = w"
| "update_remove_types w (i # rest) =
     (let t = manipulatormaptypes w ! i
      in if mmt_type_update_flag t AND WM_MANIPULATORMAPTYPE_GLOBAL_UPDATE_REMOVE \<noteq> 0
         then
           let w1 = w\<lparr>manipulatormaptypes := (manipulatormaptypes w)
                       [i := t\<lparr>mmt_type_update_flag :=
                                mmt_type_update_flag t AND NOT WM_MANIPULATORMAPTYPE_UPDATE_REMOVE\<rparr>]\<rparr>
           in update_remove_types (update_remove_refs w1 i (grouptype_refs t)) rest
         else update_remove_types w rest)"

definition update_remove :: "world \<Rightarrow> world" where
  "update_remove w =
    (if wm_mmap_type_update_flag w AND WM_MANIPULATORMAPTYPE_GLOBAL_UPDATE_REMOVE \<noteq> 0
     then
       let w1 = update_remove_types w [0 ..< length (manipulatormaptypes w)]
       in w1\<lparr>wm_mmap_type_update_flag :=
               wm_mmap_type_update_flag w1 AND NOT WM_MANIPULATORMAPTYPE_GLOBAL_UPDATE_REMOVE\<rparr>
     else w)"

text \<open>The init block of \<open>WM_manipulatorconfig_update\<close>.\<close>

fun update_init_refs :: "world \<Rightarrow> nat \<Rightarrow> wgt_ptr list \<Rightarrow> world" where
  "update_init_refs w mmap_type [] = w"
| "update_init_refs w mmap_type (wgt # rest) =
     (let w1 = (if wgt_type_update_flag (wgt_heap w wgt) AND WM_MANIPULATORMAPTYPE_KEYMAP_INIT \<noteq> 0
                then emit (wgt_update w wgt
                             (\<lambda>t. t\<lparr>wgt_type_update_flag :=
                                      wgt_type_update_flag t AND NOT WM_MANIPULATORMAPTYPE_KEYMAP_INIT\<rparr>))
                       (Init_runtime_keymap wgt)
                else w);
          w2 = (if wgt_type_update_flag (wgt_heap w1 wgt) AND WM_MANIPULATORMAPTYPE_UPDATE_INIT \<noteq> 0
                then emit (wgt_update w1 wgt
                             (\<lambda>t. t\<lparr>wgt_type_update_flag :=
                                      wgt_type_update_flag t AND NOT WM_MANIPULATORMAPTYPE_UPDATE_INIT\<rparr>))
                       (Init_runtime mmap_type wgt)
                else w1)
      in update_init_refs w2 mmap_type rest)"

fun update_init_types :: "world \<Rightarrow> nat list \<Rightarrow> world" where
  "update_init_types w [] = w"
| "update_init_types w (i # rest) =
     (let t = manipulatormaptypes w ! i;
          type_update_all = WM_MANIPULATORMAPTYPE_UPDATE_INIT OR WM_MANIPULATORMAPTYPE_KEYMAP_INIT
      in if mmt_type_update_flag t AND type_update_all \<noteq> 0
         then
           let w1 = w\<lparr>manipulatormaptypes := (manipulatormaptypes w)
                       [i := t\<lparr>mmt_type_update_flag :=
                                mmt_type_update_flag t AND NOT type_update_all\<rparr>]\<rparr>
           in update_init_types (update_init_refs w1 i (grouptype_refs t)) rest
         else update_init_types w rest)"

definition update_init :: "world \<Rightarrow> world" where
  "update_init w =
    (if wm_mmap_type_update_flag w AND WM_MANIPULATORMAPTYPE_GLOBAL_UPDATE_INIT \<noteq> 0
     then
       let w1 = update_init_types w [0 ..< length (manipulatormaptypes w)]
       in w1\<lparr>wm_mmap_type_update_flag :=
               wm_mmap_type_update_flag w1 AND NOT WM_MANIPULATORMAPTYPE_GLOBAL_UPDATE_INIT\<rparr>
     else w)"

definition WM_manipulatorconfig_update :: "world \<Rightarrow> world" where
  "WM_manipulatorconfig_update w =
    (if G_background w then w
     else if wm_mmap_type_update_flag w = 0 then w
     else update_init (update_remove w))"

section \<open>Properties and example states\<close>

text \<open>The manipulators of a map: those of its groups, in group order.\<close>

definition map_manipulators :: "world \<Rightarrow> mmap_ptr \<Rightarrow> mpr_ptr list" where
  "map_manipulators w mmap =
     concat (map (\<lambda>g. manipulators (mgroup_heap w g)) (groups (mmap_heap w mmap)))"

definition is_highlighted :: "world \<Rightarrow> mpr_ptr \<Rightarrow> bool" where
  "is_highlighted w a = (state (mpr_heap w a) AND WM_MANIPULATOR_STATE_HIGHLIGHT \<noteq> 0)"

text \<open>The requested manipulator and part are the current ones.\<close>

definition highlight_current :: "world \<Rightarrow> mmap_ptr \<Rightarrow> mpr_ptr option \<Rightarrow> int \<Rightarrow> bool" where
  "highlight_current w mmap mpr part =
     (highlight (mmap_heap w mmap) = mpr \<and>
      (case mpr of None \<Rightarrow> True | Some a \<Rightarrow> highlight_part (mpr_heap w a) = part))"

text \<open>
  A manipulator of the map that carries the highlight bit is the one in the highlight
  slot of the map. Maps start without any highlight bit, and only
  \<open>wm_manipulatormap_highlight_set\<close> writes the bit.
\<close>

definition highlight_inv :: "world \<Rightarrow> mmap_ptr \<Rightarrow> bool" where
  "highlight_inv w mmap =
     (\<forall>a \<in> set (map_manipulators w mmap).
        is_highlighted w a \<longrightarrow> highlight (mmap_heap w mmap) = Some a)"

text \<open>How many manipulators of the map carry the highlight bit.\<close>

definition highlighted_count :: "world \<Rightarrow> mmap_ptr \<Rightarrow> nat" where
  "highlighted_count w mmap =
     length (filter (is_highlighted w) (remdups (map_manipulators w mmap)))"

text \<open>
  An example: map 0 has the groups 0 (2D, selectable) and 1 (3D), with the manipulators
  1, 2 and 3, 4; nothing is highlighted, modal or selected, and a refresh is pending.
\<close>

definition ex_type :: wmManipulatorType where
  "ex_type = \<lparr>type_draw_select = True, type_test_select = True, type_invoke = True,
              type_modal = True, type_select = True, type_cursor_get = True\<rparr>"

definition ex_mpr :: "mpr_ptr \<Rightarrow> wmManipulator" where
  "ex_mpr a = \<lparr>name = (if a = 1 then ''a'' else if a = 2 then ''b''
                       else if a = 3 then ''c'' else ''d''),
              parent_mgroup = (if a < 3 then 0 else 1), mpr_type = ex_type,
              flag = 0, state = 0, highlight_part = 0, custom_modal = False,
              interaction_data = None, op_data_type = None, op_data_ptr = 0\<rparr>"

definition ex_world :: world where
  "ex_world =
     \<lparr>mpr_heap = ex_mpr,
      mgroup_heap = (\<lambda>g. \<lparr>mgroup_type = g,
                           manipulators = (if g = 0 then [1, 2] else if g = 1 then [3, 4] else [])\<rparr>),
      wgt_heap = (\<lambda>t. \<lparr>wgt_flag = (if t = 0 then WM_MANIPULATORGROUPTYPE_SELECT
                                    else WM_MANIPULATORGROUPTYPE_3D),
                        wgt_poll = False, wgt_refresh = True, wgt_draw_prepare = True,
                        wgt_type_update_flag = 0\<rparr>),
      mmap_heap = (\<lambda>m. \<lparr>groups = [0, 1], update_flag = MANIPULATORMAP_REFRESH,
                         highlight = None, modal = None, selected = None, selected_len = 0\<rparr>),
      manipulatormaptypes = [],
      wm_mmap_type_update_flag = 0,
      G_background = False,
      calls = []\<rparr>"

definition ex_context :: bContext where
  "ex_context = \<lparr>wm_window = 1, wm_area = 2, wm_region = 3\<rparr>"

text \<open>
  An example host. Its operator call is rejected: it re-enters
  \<open>wm_manipulatormap_modal_set\<close> of map 0 with a NULL manipulator. Its \<open>invoke\<close> callback
  allocates interaction data. Its pick finds nothing.
\<close>

definition ex_host :: host where
  "ex_host =
     \<lparr>CURSOR_STD = 1,
      type_cursor_get_result = (\<lambda>x. 7),
      wgt_poll_result = (\<lambda>c t. True),
      ghash_values = map snd,
      wm_manipulator_is_visible = (\<lambda>w a. 3),
      wm_manipulatorgroup_is_visible = (\<lambda>w g c. True),
      wm_manipulatorgroup_is_visible_in_drawstep = (\<lambda>w g d. True),
      wm_manipulatorgroup_intersectable_manipulators_to_list =
        (\<lambda>w g l. rev (manipulators (mgroup_heap w g)) @ l),
      wm_manipulatorgroup_find_intersected_mainpulator = (\<lambda>w g c e p. (Some 2, 5)),
      GPU_select_query_check_active = False,
      GPU_select_end_result = (\<lambda>w b. (0, b)),
      GPU_select_buffer_near_result = (\<lambda>b n. None),
      U_ogl_multisamples_enabled = False,
      type_invoke_call = (\<lambda>c a e w. mpr_update w a (\<lambda>x. x\<lparr>interaction_data := Some 9\<rparr>)),
      WM_operator_name_call_ptr =
        (\<lambda>c ot p w. mmap_update
           (case modal (mmap_heap w 0) of
              Some q \<Rightarrow> mpr_update w q
                (\<lambda>x. x\<lparr>state := state x AND NOT WM_MANIPULATOR_STATE_MODAL,
                       interaction_data := None\<rparr>)
            | None \<Rightarrow> w)
           0 (\<lambda>x. x\<lparr>modal := None\<rparr>))\<rparr>"

definition ex_highlighted :: world where
  "ex_highlighted =
     wm_manipulatormap_highlight_set ex_host ex_world 0 (Some ex_context) (Some 1) 3"

definition is_modal :: "world \<Rightarrow> mpr_ptr \<Rightarrow> bool" where
  "is_modal w a = (state (mpr_heap w a) AND WM_MANIPULATOR_STATE_MODAL \<noteq> 0)"


definition ex_event :: wmEvent where
  "ex_event = \<lparr>mval = (100, 100)\<rparr>"




text \<open>The example after manipulator 1 (no operator bound) became modal.\<close>

definition ex_modal :: world where
  "ex_modal = wm_manipulatormap_modal_set ex_host ex_world 0 (Some ex_context) ex_event (Some 1)"

definition is_selected :: "world \<Rightarrow> mpr_ptr \<Rightarrow> bool" where
  "is_selected w a = (state (mpr_heap w a) AND WM_MANIPULATOR_STATE_SELECT \<noteq> 0)"

text \<open>
  What \<open>WM_manipulatormap_manipulator_hash_new\<close> reads of the world: the groups of the
  maps, the groups and group types, and the name, group and flag of every manipulator.
\<close>

definition same_layout :: "world \<Rightarrow> world \<Rightarrow> bool" where
  "same_layout w w' =
     (mgroup_heap w' = mgroup_heap w \<and> wgt_heap w' = wgt_heap w \<and>
      (\<forall>m. groups (mmap_heap w' m) = groups (mmap_heap w m)) \<and>
      (\<forall>a. name (mpr_heap w' a) = name (mpr_heap w a) \<and>
           parent_mgroup (mpr_heap w' a) = parent_mgroup (mpr_heap w a) \<and>
           flag (mpr_heap w' a) = flag (mpr_heap w a) \<and>
           mpr_type (mpr_heap w' a) = mpr_type (mpr_heap w a)))"

text \<open>The values that \<open>wm_manipulatormap_select_all_intern\<close> iterates over.\<close>

definition selectable_values :: "host \<Rightarrow> world \<Rightarrow> bContext \<Rightarrow> mmap_ptr \<Rightarrow> mpr_ptr list" where
  "selectable_values h w C mmap =
     ghash_values h
       (WM_manipulatormap_manipulator_hash_new h w C mmap (Some manipulator_selectable_poll) True)"







text \<open>The example with a map 7 that holds the 3D group only, which is not selectable.\<close>

definition ex_world_3d_only :: world where
  "ex_world_3d_only = mmap_update ex_world 7 (\<lambda>x. x\<lparr>groups := [1]\<rparr>)"

text \<open>
  The modal-only path of the draw pipeline: the map has groups and a modal manipulator
  whose group type does not ask to draw all manipulators while one is modal.
\<close>

definition modal_only_path :: "world \<Rightarrow> mmap_ptr \<Rightarrow> mpr_ptr \<Rightarrow> bool" where
  "modal_only_path w mmap mpr_modal =
     (groups (mmap_heap w mmap) \<noteq> [] \<and> modal (mmap_heap w mmap) = Some mpr_modal \<and>
      wgt_flag (wgt_heap w (mgroup_type (mgroup_heap w (parent_mgroup (mpr_heap w mpr_modal)))))
        AND WM_MANIPULATORGROUPTYPE_DRAW_MODAL_ALL = 0)"

text \<open>The refresh flag of a map after a call of the per-frame draw entry point.\<close>

definition update_flag_after_draw ::
  "host \<Rightarrow> world \<Rightarrow> mmap_ptr \<Rightarrow> bContext \<Rightarrow> int \<Rightarrow> error + 8 word" where
  "update_flag_after_draw h w mmap C drawstep =
     (case WM_manipulatormap_draw h w (Some mmap) C drawstep of
        Inl e \<Rightarrow> Inl e
      | Inr w' \<Rightarrow> Inr (update_flag (mmap_heap w' mmap)))"

text \<open>An example host that sees no manipulator.\<close>

definition ex_host_blind :: host where
  "ex_host_blind = ex_host\<lparr>wm_manipulator_is_visible := (\<lambda>w a. 0)\<rparr>"

definition is_unlink_call :: "host_call \<Rightarrow> bool" where
  "is_unlink_call c = (case c of Group_unlink _ _ \<Rightarrow> True | _ \<Rightarrow> False)"

definition is_init_call :: "host_call \<Rightarrow> bool" where
  "is_init_call c =
     (case c of Init_runtime_keymap _ \<Rightarrow> True | Init_runtime _ _ \<Rightarrow> True | _ \<Rightarrow> False)"

text \<open>
  The unlinks of the removal block of \<open>WM_manipulatorconfig_update\<close>, as the code makes
  them: when the global remove bit is set, for every map type that carries the remove
  bit, in list order, the unlink of each of its group-type-refs, whether or not the group
  type of the ref carries the remove bit.
\<close>

definition unlinks_of_type :: "world \<Rightarrow> nat \<Rightarrow> host_call list" where
  "unlinks_of_type w i =
     (if mmt_type_update_flag (manipulatormaptypes w ! i)
           AND WM_MANIPULATORMAPTYPE_GLOBAL_UPDATE_REMOVE \<noteq> 0
      then map (Group_unlink i) (grouptype_refs (manipulatormaptypes w ! i)) else [])"

definition removal_block_unlinks :: "world \<Rightarrow> host_call list" where
  "removal_block_unlinks w =
     (if wm_mmap_type_update_flag w AND WM_MANIPULATORMAPTYPE_GLOBAL_UPDATE_REMOVE \<noteq> 0
      then concat (map (unlinks_of_type w) [0 ..< length (manipulatormaptypes w)]) else [])"

text \<open>
  Following the words of the specification, the pending removals are the unlinks of the
  flagged group-type-refs: of the refs whose group type carries the remove bit, in the
  map types that carry the remove bit.
\<close>

definition flagged_ref_unlinks :: "world \<Rightarrow> host_call list" where
  "flagged_ref_unlinks w =
     concat (map
       (\<lambda>i. if mmt_type_update_flag (manipulatormaptypes w ! i)
                  AND WM_MANIPULATORMAPTYPE_UPDATE_REMOVE \<noteq> 0
            then map (Group_unlink i)
                   (filter (\<lambda>g. wgt_type_update_flag (wgt_heap w g)
                                  AND WM_MANIPULATORMAPTYPE_UPDATE_REMOVE \<noteq> 0)
                      (grouptype_refs (manipulatormaptypes w ! i)))
            else [])
       [0 ..< length (manipulatormaptypes w)])"

text \<open>
  An example registry: two map types, the first with the group types 5 and 6, the second
  with group type 5; group type 5 is tagged for removal from the first and for init in
  the second.
\<close>

definition ex_registry :: world where
  "ex_registry =
     WM_manipulatorconfig_update_tag_init
       (WM_manipulatorconfig_update_tag_remove
          (ex_world\<lparr>manipulatormaptypes :=
             [\<lparr>spaceid = 1, regionid = 0, grouptype_refs = [5, 6], mmt_type_update_flag = 0\<rparr>,
              \<lparr>spaceid = 1, regionid = 2, grouptype_refs = [5], mmt_type_update_flag = 0\<rparr>]\<rparr>)
          0 5)
       1 5"


definition decode_hit ::
  "mpr_ptr list \<Rightarrow> int \<Rightarrow> world \<Rightarrow> error + ((mpr_ptr option \<times> int) \<times> world)" where
  "decode_hit visible_manipulators ret w =
     (case BLI_findlink visible_manipulators (drop_bit 8 ret) of
        None \<Rightarrow> Inl Null_dereference
      | Some mpr \<Rightarrow> Inr ((Some mpr, ret AND 255), w))"

text \<open>The two hotspots of the 3D pick, as single precision values.\<close>

definition hotspot_first :: rat where
  "hotspot_first = 7"

definition hotspot_second :: rat where
  "hotspot_second = 11744051 / 4194304"





text \<open>
  The example with a map 8 whose 3D group comes before its 2D group, a host whose pick
  hits the candidate at list position 1, and the same host with a backend that supports
  passes.
\<close>

definition ex_world_3d_first :: world where
  "ex_world_3d_first = mmap_update ex_world 8 (\<lambda>x. x\<lparr>groups := [1, 0]\<rparr>)"

definition ex_host_hit :: host where
  "ex_host_hit = ex_host\<lparr>GPU_select_end_result := (\<lambda>w b. (1, [0, 0, 0, 256])),
                         GPU_select_buffer_near_result := (\<lambda>b n. Some 256)\<rparr>"

definition ex_host_passes :: host where
  "ex_host_passes = ex_host_hit\<lparr>GPU_select_query_check_active := True\<rparr>"

text \<open>The calls of the two picks of the example, around the pointer at (100, 100).\<close>

definition ex_first_pick_calls :: "host_call list" where
  "ex_first_pick_calls =
     [View3d_setup_view (Some (Rcti 93 107 93 107)),
      GPU_select_begin (Rcti 93 107 93 107) GPU_SELECT_ALL 0,
      Call_draw_select 4 0, Call_draw_select 3 256, GPU_select_end,
      View3d_setup_view None]"

definition ex_second_pick_calls :: "host_call list" where
  "ex_second_pick_calls =
     [View3d_setup_view (Some (Rcti 97 102 97 102)),
      GPU_select_begin (Rcti 97 102 97 102) GPU_SELECT_ALL 0,
      Call_draw_select 4 0, Call_draw_select 3 256, GPU_select_end,
      View3d_setup_view None]"


text \<open>
  A map type after the removal block: without its remove bit and without refs if it
  carried the remove bit, as it was otherwise.
\<close>

definition removed_type :: "wmManipulatorMapType \<Rightarrow> wmManipulatorMapType" where
  "removed_type t =
     (if mmt_type_update_flag t AND WM_MANIPULATORMAPTYPE_GLOBAL_UPDATE_REMOVE \<noteq> 0
      then t\<lparr>mmt_type_update_flag :=
               mmt_type_update_flag t AND NOT WM_MANIPULATORMAPTYPE_UPDATE_REMOVE,
             grouptype_refs := []\<rparr>
      else t)"

definition has_remove_bit :: "wmManipulatorMapType \<Rightarrow> bool" where
  "has_remove_bit t =
     (mmt_type_update_flag t AND WM_MANIPULATORMAPTYPE_UPDATE_REMOVE \<noteq> 0)"

section \<open>Highlight set\<close>

lemma HIGHLIGHT_nonzero: "WM_MANIPULATOR_STATE_HIGHLIGHT \<noteq> 0"
  by (simp add: WM_MANIPULATOR_STATE_HIGHLIGHT_def)

lemma HIGHLIGHT_cleared:
  "(x AND NOT WM_MANIPULATOR_STATE_HIGHLIGHT) AND WM_MANIPULATOR_STATE_HIGHLIGHT = 0"
  by (simp add: word_bw_assocs)

lemma highlight_set_current:
  "highlight_current w mmap mpr part \<Longrightarrow>
   wm_manipulatormap_highlight_set h w mmap C mpr part = w"
  by (auto simp: wm_manipulatormap_highlight_set_def highlight_current_def split: option.splits)

lemma highlight_set_is_highlighted:
  "\<not> highlight_current w mmap mpr part \<Longrightarrow>
   is_highlighted (wm_manipulatormap_highlight_set h w mmap C mpr part) a =
     (mpr = Some a \<or> (highlight (mmap_heap w mmap) \<noteq> Some a \<and> is_highlighted w a))"
  by (auto simp: wm_manipulatormap_highlight_set_def highlight_current_def is_highlighted_def
        mpr_update_def mmap_update_def emit_def Let_def HIGHLIGHT_nonzero HIGHLIGHT_cleared
        split: option.splits)

lemma highlight_set_highlight:
  "\<not> highlight_current w mmap mpr part \<Longrightarrow>
   highlight (mmap_heap (wm_manipulatormap_highlight_set h w mmap C mpr part) mmap) = mpr"
  by (auto simp: wm_manipulatormap_highlight_set_def highlight_current_def
        mpr_update_def mmap_update_def emit_def Let_def split: option.splits)

lemma highlight_set_part:
  "\<not> highlight_current w mmap mpr part \<Longrightarrow>
   highlight_part (mpr_heap (wm_manipulatormap_highlight_set h w mmap C mpr part) a) =
     (if mpr = Some a then part
      else if highlight (mmap_heap w mmap) = Some a then 0
      else highlight_part (mpr_heap w a))"
  by (auto simp: wm_manipulatormap_highlight_set_def highlight_current_def
        mpr_update_def mmap_update_def emit_def Let_def split: option.splits)

lemma highlight_set_map_manipulators:
  "map_manipulators (wm_manipulatormap_highlight_set h w mmap C mpr part) m =
   map_manipulators w m"
  by (auto simp: wm_manipulatormap_highlight_set_def map_manipulators_def
        mpr_update_def mmap_update_def emit_def Let_def split: option.splits)

lemma highlight_set_inv:
  assumes "highlight_inv w mmap"
  shows "highlight_inv (wm_manipulatormap_highlight_set h w mmap C mpr part) mmap"
proof (cases "highlight_current w mmap mpr part")
  case True
  then show ?thesis using assms by (simp add: highlight_set_current)
next
  case False
  show ?thesis
    unfolding highlight_inv_def
    using assms
    by (auto simp: highlight_set_is_highlighted[OF False] highlight_set_highlight[OF False]
          highlight_set_map_manipulators highlight_inv_def)
qed

lemma highlight_inv_count:
  assumes "highlight_inv w mmap"
  shows "highlighted_count w mmap \<le> 1"
proof -
  let ?xs = "filter (is_highlighted w) (remdups (map_manipulators w mmap))"
  have d: "distinct ?xs" by simp
  have "\<forall>x \<in> set ?xs. highlight (mmap_heap w mmap) = Some x"
    using assms by (auto simp: highlight_inv_def)
  then have "\<forall>x \<in> set ?xs. \<forall>y \<in> set ?xs. x = y" by (metis option.inject)
  then have "card (set ?xs) \<le> 1"
    by (metis card_le_Suc0_iff_eq List.finite_set One_nat_def)
  then show ?thesis
    using d distinct_card[of ?xs] by (simp add: highlighted_count_def)
qed

text \<open>
  C5. Highlight-set with the manipulator and part that are already current changes
  nothing: no state bit, no cursor, no redraw request (the world, with its recorded
  calls, is the same). Otherwise the previous highlight loses its highlight bit and its
  part, and the new target is installed. So a map in which only the manipulator of the
  highlight slot can carry the highlight bit stays so after every call, and at most one
  of its manipulators carries the bit.
\<close>

theorem highlight_set_noop_or_single:
  "(highlight_current w mmap mpr part \<longrightarrow>
      wm_manipulatormap_highlight_set h w mmap C mpr part = w) \<and>
   (\<not> highlight_current w mmap mpr part \<longrightarrow>
      highlight (mmap_heap (wm_manipulatormap_highlight_set h w mmap C mpr part) mmap) = mpr \<and>
      (\<forall>p. highlight (mmap_heap w mmap) = Some p \<and> mpr \<noteq> Some p \<longrightarrow>
           \<not> is_highlighted (wm_manipulatormap_highlight_set h w mmap C mpr part) p \<and>
           highlight_part (mpr_heap (wm_manipulatormap_highlight_set h w mmap C mpr part) p) = 0) \<and>
      (\<forall>a. mpr = Some a \<longrightarrow>
           is_highlighted (wm_manipulatormap_highlight_set h w mmap C mpr part) a \<and>
           highlight_part (mpr_heap (wm_manipulatormap_highlight_set h w mmap C mpr part) a) = part)) \<and>
   (highlight_inv w mmap \<longrightarrow>
      highlight_inv (wm_manipulatormap_highlight_set h w mmap C mpr part) mmap \<and>
      highlighted_count (wm_manipulatormap_highlight_set h w mmap C mpr part) mmap \<le> 1)"
proof (intro conjI impI)
  assume "highlight_inv w mmap"
  then have "highlight_inv (wm_manipulatormap_highlight_set h w mmap C mpr part) mmap"
    by (rule highlight_set_inv)
  then show "highlight_inv (wm_manipulatormap_highlight_set h w mmap C mpr part) mmap" .
  then show "highlighted_count (wm_manipulatormap_highlight_set h w mmap C mpr part) mmap \<le> 1"
    by (rule highlight_inv_count)
qed (auto simp: highlight_set_current highlight_set_highlight highlight_set_is_highlighted
        highlight_set_part)

lemma ex_world_inv: "highlight_inv ex_world 0"
  by (simp add: highlight_inv_def ex_world_def is_highlighted_def ex_mpr_def)

lemma ex_world_not_current: "\<not> highlight_current ex_world 0 (Some 1) 3"
  by (simp add: highlight_current_def ex_world_def)

lemma ex_highlighted_current: "highlight_current ex_highlighted 0 (Some 1) 3"
  using highlight_set_highlight[OF ex_world_not_current, of ex_host "Some ex_context"]
    highlight_set_part[OF ex_world_not_current, of ex_host "Some ex_context" 1]
  by (simp add: highlight_current_def ex_highlighted_def)

lemma ex_highlighted_not_current2: "\<not> highlight_current ex_highlighted 0 (Some 2) 0"
  using highlight_set_highlight[OF ex_world_not_current, of ex_host "Some ex_context"]
  by (simp add: highlight_current_def ex_highlighted_def)

lemma ex_highlighted_inv: "highlight_inv ex_highlighted 0"
  unfolding ex_highlighted_def by (rule highlight_set_inv[OF ex_world_inv])

theorem highlight_set_noop_or_single_witness:
  "wm_manipulatormap_highlight_set ex_host ex_highlighted 0 (Some ex_context) (Some 1) 3 = ex_highlighted \<and>
   calls ex_highlighted = [WM_cursor_set 1 7, ED_region_tag_redraw 3] \<and>
   highlight (mmap_heap (wm_manipulatormap_highlight_set ex_host ex_highlighted 0 (Some ex_context) (Some 2) 0) 0) = Some 2 \<and>
   \<not> is_highlighted (wm_manipulatormap_highlight_set ex_host ex_highlighted 0 (Some ex_context) (Some 2) 0) 1 \<and>
   is_highlighted (wm_manipulatormap_highlight_set ex_host ex_highlighted 0 (Some ex_context) (Some 2) 0) 2 \<and>
   highlighted_count (wm_manipulatormap_highlight_set ex_host ex_highlighted 0 (Some ex_context) (Some 2) 0) 0 \<le> 1"
proof -
  have c: "calls ex_highlighted = [WM_cursor_set 1 7, ED_region_tag_redraw 3]"
    by (simp add: ex_highlighted_def wm_manipulatormap_highlight_set_def ex_world_def ex_host_def
          ex_context_def ex_mpr_def ex_type_def mpr_update_def mmap_update_def emit_def Let_def)
  have hl: "highlight (mmap_heap ex_highlighted 0) = Some 1"
    using ex_highlighted_current by (simp add: highlight_current_def)
  show ?thesis
    using highlight_set_noop_or_single[of ex_highlighted 0 "Some 1" 3 ex_host "Some ex_context"]
      highlight_set_noop_or_single[of ex_highlighted 0 "Some 2" 0 ex_host "Some ex_context"]
      ex_highlighted_current ex_highlighted_not_current2 ex_highlighted_inv c hl
    by simp
qed

section \<open>Modal set\<close>

lemma MODAL_cleared:
  "(x AND NOT WM_MANIPULATOR_STATE_MODAL) AND WM_MANIPULATOR_STATE_MODAL = 0"
  by (simp add: word_bw_assocs)

lemma modal_set_activated_op_data [simp]:
  "op_data_type (mpr_heap (modal_set_activated w mmap a) b) = op_data_type (mpr_heap w b)"
  by (simp add: modal_set_activated_def mpr_update_def mmap_update_def)








text \<open>
  C9. Modal-set with a manipulator but a NULL context does what the call with a NULL
  manipulator does: it takes the deactivate branch. The manipulator that was modal loses
  its modal bit and its interaction data, the modal slot of the map is emptied, the
  manipulator passed is left as it was (unless it is the one that was modal), and no host
  call is made.
\<close>

theorem modal_set_null_context:
  "wm_manipulatormap_modal_set h w mmap None event (Some a) =
     wm_manipulatormap_modal_set h w mmap None event None \<and>
   modal (mmap_heap (wm_manipulatormap_modal_set h w mmap None event (Some a)) mmap) = None \<and>
   (\<forall>p. modal (mmap_heap w mmap) = Some p \<longrightarrow>
      \<not> is_modal (wm_manipulatormap_modal_set h w mmap None event (Some a)) p \<and>
      interaction_data (mpr_heap (wm_manipulatormap_modal_set h w mmap None event (Some a)) p) = None) \<and>
   (modal (mmap_heap w mmap) \<noteq> Some a \<longrightarrow>
      mpr_heap (wm_manipulatormap_modal_set h w mmap None event (Some a)) a = mpr_heap w a) \<and>
   calls (wm_manipulatormap_modal_set h w mmap None event (Some a)) = calls w"
  by (auto simp: wm_manipulatormap_modal_set_def is_modal_def mpr_update_def mmap_update_def
        MODAL_cleared Let_def split: option.splits)

lemma ex_modal_state:
  "modal (mmap_heap ex_modal 0) = Some 1 \<and> is_modal ex_modal 1 \<and>
   interaction_data (mpr_heap ex_modal 1) = Some 9 \<and> \<not> is_modal ex_modal 2"
  by (simp add: ex_modal_def wm_manipulatormap_modal_set_def modal_set_invoke_def
        modal_set_activated_def is_modal_def ex_host_def ex_world_def ex_mpr_def ex_type_def
        mpr_update_def mmap_update_def emit_def Let_def WM_MANIPULATOR_STATE_MODAL_def)

theorem modal_set_null_context_witness:
  "modal (mmap_heap ex_modal 0) = Some 1 \<and> is_modal ex_modal 1 \<and>
   interaction_data (mpr_heap ex_modal 1) = Some 9 \<and>
   modal (mmap_heap (wm_manipulatormap_modal_set ex_host ex_modal 0 None ex_event (Some 2)) 0) = None \<and>
   \<not> is_modal (wm_manipulatormap_modal_set ex_host ex_modal 0 None ex_event (Some 2)) 1 \<and>
   interaction_data (mpr_heap (wm_manipulatormap_modal_set ex_host ex_modal 0 None ex_event (Some 2)) 1) = None \<and>
   mpr_heap (wm_manipulatormap_modal_set ex_host ex_modal 0 None ex_event (Some 2)) 2 = mpr_heap ex_modal 2 \<and>
   \<not> is_modal (wm_manipulatormap_modal_set ex_host ex_modal 0 None ex_event (Some 2)) 2"
proof -
  have d: "modal (mmap_heap ex_modal 0) \<noteq> Some 2"
    using ex_modal_state by simp
  have k: "mpr_heap (wm_manipulatormap_modal_set ex_host ex_modal 0 None ex_event (Some 2)) 2 =
             mpr_heap ex_modal 2"
    using modal_set_null_context[of ex_host ex_modal 0 ex_event 2] d by blast
  have "\<not> is_modal (wm_manipulatormap_modal_set ex_host ex_modal 0 None ex_event (Some 2)) 2"
    using ex_modal_state unfolding is_modal_def k by blast
  then show ?thesis
    using modal_set_null_context[of ex_host ex_modal 0 ex_event 2] d ex_modal_state
    by blast
qed

section \<open>Select all, deselect all\<close>

lemma disjoint_bits:
  fixes a b :: "'a::len word"
  assumes "a AND b = 0"
  shows "\<not> (bit a n \<and> bit b n)"
proof -
  have "bit (a AND b) n = (bit a n \<and> bit b n)" by (simp add: bit_and_iff)
  then show ?thesis using assms by simp
qed

lemma clear_keeps_other_bit:
  fixes a b x :: "'a::len word"
  assumes "a AND b = 0"
  shows "(x AND NOT a) AND b = x AND b"
  using disjoint_bits[OF assms]
  by (intro bit_word_eqI) (auto simp: bit_simps)

lemma set_keeps_other_bit:
  fixes a b x :: "'a::len word"
  assumes "a AND b = 0"
  shows "(x OR a) AND b = x AND b"
  using disjoint_bits[OF assms]
  by (intro bit_word_eqI) (auto simp: bit_simps)

lemma HIGHLIGHT_SELECT_disjoint:
  "WM_MANIPULATOR_STATE_HIGHLIGHT AND WM_MANIPULATOR_STATE_SELECT = 0"
  by (simp add: WM_MANIPULATOR_STATE_HIGHLIGHT_def WM_MANIPULATOR_STATE_SELECT_def)

lemma SELECT_nonzero: "WM_MANIPULATOR_STATE_SELECT \<noteq> 0"
  by (simp add: WM_MANIPULATOR_STATE_SELECT_def)


lemma SELECT_set:
  "(x OR WM_MANIPULATOR_STATE_SELECT) AND WM_MANIPULATOR_STATE_SELECT \<noteq> 0"
  by (simp add: SELECT_nonzero)

lemma highlight_set_is_selected:
  "is_selected (wm_manipulatormap_highlight_set h w mmap C mpr part) a = is_selected w a"
  by (auto simp: wm_manipulatormap_highlight_set_def is_selected_def mpr_update_def
        mmap_update_def emit_def Let_def
        clear_keeps_other_bit[OF HIGHLIGHT_SELECT_disjoint]
        set_keeps_other_bit[OF HIGHLIGHT_SELECT_disjoint]
        split: option.splits)

lemma highlight_set_selected:
  "selected (mmap_heap (wm_manipulatormap_highlight_set h w mmap C mpr part) m) =
     selected (mmap_heap w m) \<and>
   selected_len (mmap_heap (wm_manipulatormap_highlight_set h w mmap C mpr part) m) =
     selected_len (mmap_heap w m)"
  by (auto simp: wm_manipulatormap_highlight_set_def mpr_update_def
        mmap_update_def emit_def Let_def split: option.splits)

lemma highlight_set_layout:
  "same_layout w (wm_manipulatormap_highlight_set h w mmap C mpr part)"
  by (auto simp: wm_manipulatormap_highlight_set_def same_layout_def mpr_update_def
        mmap_update_def emit_def Let_def split: option.splits)

lemma same_layout_trans: "same_layout a b \<Longrightarrow> same_layout b c \<Longrightarrow> same_layout a c"
  by (simp add: same_layout_def)

lemma same_layout_hash:
  assumes "same_layout w w'"
  shows "WM_manipulatormap_manipulator_hash_new h w' C mmap (Some manipulator_selectable_poll) True =
         WM_manipulatormap_manipulator_hash_new h w C mmap (Some manipulator_selectable_poll) True"
proof -
  have g: "mgroup_heap w' = mgroup_heap w" and t: "wgt_heap w' = wgt_heap w"
    and m: "groups (mmap_heap w' mmap) = groups (mmap_heap w mmap)"
    and n: "\<And>a. name (mpr_heap w' a) = name (mpr_heap w a)"
    and p: "\<And>a. parent_mgroup (mpr_heap w' a) = parent_mgroup (mpr_heap w a)"
    using assms by (simp_all add: same_layout_def)
  have s: "manipulator_selectable_poll w' = manipulator_selectable_poll w"
    by (simp add: fun_eq_iff manipulator_selectable_poll_def g t p)
  show ?thesis
    by (simp add: WM_manipulatormap_manipulator_hash_new_def g t m n s cong: if_cong)
qed

lemma select_all_iter_layout:
  "same_layout w (snd (select_all_iter w action vals ch))"
proof (induction vals arbitrary: w ch)
  case Nil
  then show ?case by (simp add: same_layout_def)
next
  case (Cons a vals)
  let ?w2 = "(let w1 = mpr_update w a (\<lambda>x. x\<lparr>state := state x OR WM_MANIPULATOR_STATE_SELECT\<rparr>)
              in if type_select (mpr_type (mpr_heap w1 a))
                 then emit w1 (Call_select a action) else w1)"
  have "same_layout w ?w2"
    by (simp add: same_layout_def mpr_update_def emit_def Let_def)
  then show ?case
    using Cons.IH[of ?w2] by (auto simp: Let_def intro: same_layout_trans)
qed

lemma select_all_iter_mmap:
  "mmap_heap (snd (select_all_iter w action vals ch)) = mmap_heap w"
  by (induction vals arbitrary: w ch) (simp_all add: mpr_update_def emit_def Let_def)

lemma select_all_iter_is_selected:
  "is_selected (snd (select_all_iter w action vals ch)) b =
     (b \<in> set vals \<or> is_selected w b)"
proof (induction vals arbitrary: w ch)
  case Nil
  then show ?case by simp
next
  case (Cons a vals)
  let ?w2 = "(let w1 = mpr_update w a (\<lambda>x. x\<lparr>state := state x OR WM_MANIPULATOR_STATE_SELECT\<rparr>)
              in if type_select (mpr_type (mpr_heap w1 a))
                 then emit w1 (Call_select a action) else w1)"
  have "is_selected ?w2 b = (b = a \<or> is_selected w b)"
    by (simp add: is_selected_def mpr_update_def emit_def Let_def SELECT_nonzero)
  then show ?case
    using Cons.IH[of ?w2] by (auto simp: Let_def)
qed

lemma select_all_iter_changed:
  "fst (select_all_iter w action vals ch) = (ch \<or> (\<exists>a \<in> set vals. \<not> is_selected w a))"
proof (induction vals arbitrary: w ch)
  case Nil
  then show ?case by simp
next
  case (Cons a vals)
  let ?w2 = "(let w1 = mpr_update w a (\<lambda>x. x\<lparr>state := state x OR WM_MANIPULATOR_STATE_SELECT\<rparr>)
              in if type_select (mpr_type (mpr_heap w1 a))
                 then emit w1 (Call_select a action) else w1)"
  have s: "is_selected ?w2 b = (b = a \<or> is_selected w b)" for b
    by (simp add: is_selected_def mpr_update_def emit_def Let_def SELECT_nonzero)
  have u: "select_all_iter w action (a # vals) ch =
             select_all_iter ?w2 action vals (\<not> is_selected w a \<or> ch)"
    by (simp add: Let_def is_selected_def)
  have "fst (select_all_iter w action (a # vals) ch) =
          ((\<not> is_selected w a \<or> ch) \<or> (\<exists>b \<in> set vals. \<not> is_selected ?w2 b))"
    unfolding u by (rule Cons.IH)
  also have "\<dots> = (ch \<or> (\<exists>b \<in> set (a # vals). \<not> is_selected w b))"
    unfolding s by auto
  finally show ?case .
qed

lemma select_all_intern_result:
  assumes "selectable_values h w C mmap = a # rest"
  shows "\<exists>w'. wm_manipulatormap_select_all_intern h w C mmap action =
                 Inr (\<exists>b \<in> set (a # rest). \<not> is_selected w b, w') \<and>
              same_layout w w' \<and>
              selected (mmap_heap w' mmap) = Some (a # rest) \<and>
              selected_len (mmap_heap w' mmap) = int (length (a # rest)) \<and>
              (\<forall>b. is_selected w' b = (b \<in> set (a # rest) \<or> is_selected w b))"
proof -
  let ?vals = "a # rest"
  let ?w1 = "mmap_update w mmap (\<lambda>x. x\<lparr>selected_len := int (length ?vals)\<rparr>)"
  let ?r = "select_all_iter ?w1 action ?vals False"
  let ?w3 = "mmap_update (snd ?r) mmap (\<lambda>x. x\<lparr>selected := Some ?vals\<rparr>)"
  let ?w' = "wm_manipulatormap_highlight_set h ?w3 mmap (Some C) (Some a)
               (highlight_part (mpr_heap ?w3 a))"
  have v: "ghash_values h
             (WM_manipulatormap_manipulator_hash_new h w C mmap
                (Some manipulator_selectable_poll) True) = ?vals"
    using assms by (simp add: selectable_values_def)
  have res: "wm_manipulatormap_select_all_intern h w C mmap action = Inr (fst ?r, ?w')"
    unfolding wm_manipulatormap_select_all_intern_def v
    by (simp add: Let_def split_def del: select_all_iter.simps)
  have sel1: "is_selected ?w1 b = is_selected w b" for b
    by (simp add: is_selected_def mmap_update_def)
  have ch: "fst ?r = (\<exists>b \<in> set ?vals. \<not> is_selected w b)"
    unfolding select_all_iter_changed sel1 by simp
  have l1: "same_layout w ?w1"
    by (simp add: same_layout_def mmap_update_def)
  have l2: "same_layout ?w1 (snd ?r)"
    by (rule select_all_iter_layout)
  have l3: "same_layout (snd ?r) ?w3"
    by (simp add: same_layout_def mmap_update_def)
  have lay: "same_layout w ?w'"
    using l1 l2 l3 highlight_set_layout[of ?w3 h mmap "Some C" "Some a" "highlight_part (mpr_heap ?w3 a)"]
    by (blast intro: same_layout_trans)
  have m3: "mmap_heap ?w3 mmap = (mmap_heap w mmap)\<lparr>selected_len := int (length ?vals),
              selected := Some ?vals\<rparr>"
    unfolding mmap_update_def select_all_iter_mmap
    by (simp add: mmap_update_def select_all_iter_mmap del: select_all_iter.simps)
  have sl: "selected (mmap_heap ?w' mmap) = Some ?vals \<and>
            selected_len (mmap_heap ?w' mmap) = int (length ?vals)"
    unfolding highlight_set_selected[THEN conjunct1] highlight_set_selected[THEN conjunct2] m3
    by simp
  have s3: "is_selected ?w3 b = is_selected (snd ?r) b" for b
    by (simp add: is_selected_def mmap_update_def del: select_all_iter.simps)
  have isel: "is_selected ?w' b = (b \<in> set ?vals \<or> is_selected w b)" for b
    unfolding highlight_set_is_selected s3 select_all_iter_is_selected sel1 ..
  show ?thesis
  proof (intro exI[of _ ?w'] conjI allI)
    show "wm_manipulatormap_select_all_intern h w C mmap action =
            Inr (\<exists>b \<in> set (a # rest). \<not> is_selected w b, ?w')"
      unfolding res ch ..
  qed (use lay sl isel in blast)+
qed



lemma same_layout_values:
  "same_layout w w' \<Longrightarrow> selectable_values h w' C mmap = selectable_values h w C mmap"
  by (simp add: selectable_values_def same_layout_hash)

lemma select_all_result:
  assumes "selectable_values h w C mmap = a # rest"
  shows "\<exists>w'. WM_manipulatormap_select_all h w C mmap SEL_SELECT =
                 Inr (\<exists>b \<in> set (a # rest). \<not> is_selected w b, w') \<and>
              same_layout w w' \<and>
              selected (mmap_heap w' mmap) = Some (a # rest) \<and>
              selected_len (mmap_heap w' mmap) = int (length (a # rest)) \<and>
              (\<forall>b. is_selected w' b = (b \<in> set (a # rest) \<or> is_selected w b))"
proof -
  obtain w1 where w1:
    "wm_manipulatormap_select_all_intern h w C mmap SEL_SELECT =
       Inr (\<exists>b \<in> set (a # rest). \<not> is_selected w b, w1)"
    "same_layout w w1"
    "selected (mmap_heap w1 mmap) = Some (a # rest)"
    "selected_len (mmap_heap w1 mmap) = int (length (a # rest))"
    "\<forall>b. is_selected w1 b = (b \<in> set (a # rest) \<or> is_selected w b)"
    using select_all_intern_result[OF assms, of SEL_SELECT] by blast
  let ?ch = "\<exists>b \<in> set (a # rest). \<not> is_selected w b"
  let ?w' = "if ?ch then emit w1 WM_event_add_mousemove else w1"
  have r: "WM_manipulatormap_select_all h w C mmap SEL_SELECT = Inr (?ch, ?w')"
    by (simp add: WM_manipulatormap_select_all_def w1(1))
  have e: "same_layout w1 ?w' \<and> mmap_heap ?w' = mmap_heap w1 \<and> mpr_heap ?w' = mpr_heap w1"
    by (simp add: same_layout_def emit_def)
  have l: "same_layout w ?w'"
    using w1(2) e by (blast intro: same_layout_trans)
  have s: "is_selected ?w' b = is_selected w1 b" for b
    using e by (simp add: is_selected_def)
  show ?thesis
  proof (intro exI[of _ ?w'] conjI allI)
    show "WM_manipulatormap_select_all h w C mmap SEL_SELECT = Inr (?ch, ?w')" by (rule r)
    show "same_layout w ?w'" by (rule l)
    show "selected (mmap_heap ?w' mmap) = Some (a # rest)" using e w1(3) by simp
    show "selected_len (mmap_heap ?w' mmap) = int (length (a # rest))" using e w1(4) by simp
    show "is_selected ?w' b = (b \<in> set (a # rest) \<or> is_selected w b)" for b
      unfolding s using w1(5) by blast
  qed
qed



text \<open>
  On a map with something to select, a second select_all(SELECT) right after the first
  returns false, and the selection array, the selected count and the manipulators that
  carry the selection bit are those of the first call.
\<close>

lemma select_all_twice:
  "selectable_values h w C mmap \<noteq> [] \<Longrightarrow>
   \<exists>c1 w1 w2.
     WM_manipulatormap_select_all h w C mmap SEL_SELECT = Inr (c1, w1) \<and>
     WM_manipulatormap_select_all h w1 C mmap SEL_SELECT = Inr (False, w2) \<and>
     selected (mmap_heap w2 mmap) = selected (mmap_heap w1 mmap) \<and>
     selected_len (mmap_heap w2 mmap) = selected_len (mmap_heap w1 mmap) \<and>
     (\<forall>b. is_selected w2 b = is_selected w1 b)"
proof -
  assume "selectable_values h w C mmap \<noteq> []"
  then obtain a rest where v: "selectable_values h w C mmap = a # rest"
    by (cases "selectable_values h w C mmap") auto
  obtain c1 w1 where w1:
    "WM_manipulatormap_select_all h w C mmap SEL_SELECT = Inr (c1, w1)"
    "same_layout w w1"
    "selected (mmap_heap w1 mmap) = Some (a # rest)"
    "selected_len (mmap_heap w1 mmap) = int (length (a # rest))"
    "\<forall>b. is_selected w1 b = (b \<in> set (a # rest) \<or> is_selected w b)"
    using select_all_result[OF v] by blast
  have v1: "selectable_values h w1 C mmap = a # rest"
    using same_layout_values[OF w1(2)] v by simp
  have n: "(\<exists>b \<in> set (a # rest). \<not> is_selected w1 b) = False"
    using w1(5) by blast
  obtain w2 where w2:
    "WM_manipulatormap_select_all h w1 C mmap SEL_SELECT = Inr (False, w2)"
    "selected (mmap_heap w2 mmap) = Some (a # rest)"
    "selected_len (mmap_heap w2 mmap) = int (length (a # rest))"
    "\<forall>b. is_selected w2 b = (b \<in> set (a # rest) \<or> is_selected w1 b)"
    using select_all_result[OF v1] unfolding n by blast
  have "\<forall>b. is_selected w2 b = is_selected w1 b"
    using w2(4) w1(5) by blast
  then show ?thesis
    using w1(1,3,4) w2(1,2,3) by auto
qed


lemma select_all_no_values:
  "selectable_values h w C mmap = [] \<Longrightarrow>
   WM_manipulatormap_select_all h w C mmap SEL_SELECT = Inl Index_out_of_bounds"
  by (simp add: WM_manipulatormap_select_all_def wm_manipulatormap_select_all_intern_def
        selectable_values_def split_def Let_def)



lemma ex_values_3d_only: "selectable_values ex_host ex_world_3d_only ex_context 7 = []"
  by (simp add: selectable_values_def WM_manipulatormap_manipulator_hash_new_def
        manipulator_selectable_poll_def ex_host_def ex_world_3d_only_def ex_world_def
        ex_mpr_def mmap_update_def
        WM_MANIPULATORGROUPTYPE_SELECT_def WM_MANIPULATORGROUPTYPE_3D_def)







text \<open>
  C7 at a failing input. Map 7 of the example holds the 3D group only, so
  select_all(SELECT) collects no manipulator: the first call reads slot 0 of the empty
  array and does not return, so that no second call returns false on an unchanged
  selection.
\<close>

theorem select_all_idempotent_no_selectable:
  "groups (mmap_heap ex_world_3d_only 7) = [1] \<and>
   map (manipulator_selectable_poll ex_world_3d_only)
     (manipulators (mgroup_heap ex_world_3d_only 1)) = [False, False] \<and>
   selectable_values ex_host ex_world_3d_only ex_context 7 = [] \<and>
   wm_manipulatormap_select_all_intern ex_host ex_world_3d_only ex_context 7 SEL_SELECT =
     Inl Index_out_of_bounds \<and>
   WM_manipulatormap_select_all ex_host ex_world_3d_only ex_context 7 SEL_SELECT =
     Inl Index_out_of_bounds \<and>
   \<not> (\<exists>c1 w1. WM_manipulatormap_select_all ex_host ex_world_3d_only ex_context 7 SEL_SELECT =
               Inr (c1, w1))"
proof -
  have g: "groups (mmap_heap ex_world_3d_only 7) = [1]"
    by (simp add: ex_world_3d_only_def mmap_update_def)
  have h: "map (manipulator_selectable_poll ex_world_3d_only)
             (manipulators (mgroup_heap ex_world_3d_only 1)) = [False, False]"
    by (simp add: manipulator_selectable_poll_def ex_world_3d_only_def
          mmap_update_def ex_world_def ex_mpr_def ex_host_def
          WM_MANIPULATORGROUPTYPE_SELECT_def WM_MANIPULATORGROUPTYPE_3D_def)
  have i: "wm_manipulatormap_select_all_intern ex_host ex_world_3d_only ex_context 7 SEL_SELECT =
             Inl Index_out_of_bounds"
    using ex_values_3d_only
    by (simp add: wm_manipulatormap_select_all_intern_def selectable_values_def split_def Let_def)
  have s: "WM_manipulatormap_select_all ex_host ex_world_3d_only ex_context 7 SEL_SELECT =
             Inl Index_out_of_bounds"
    by (rule select_all_no_values[OF ex_values_3d_only])
  show ?thesis
    using g h i s ex_values_3d_only by simp
qed


section \<open>Draw pipeline\<close>

lemma draw_list_links_mmap:
  "mmap_heap (fst (draw_list_links w dl p)) = mmap_heap w"
  by (induction dl arbitrary: w p) (simp_all add: emit_def Let_def)

lemma manipulators_draw_list_mmap:
  "mmap_heap (fst (manipulators_draw_list h w mmap C dl)) = mmap_heap w"
  by (simp add: manipulators_draw_list_def emit_def Let_def split_def draw_list_links_mmap
        split: option.splits)

lemma manipulators_draw_list_drained:
  "snd (manipulators_draw_list h w mmap C dl) = [] \<or>
   snd (manipulators_draw_list h w mmap C dl) = dl \<and>
     (case mmap of None \<Rightarrow> True | Some m \<Rightarrow> groups (mmap_heap w m) = [])"
  by (simp add: manipulators_draw_list_def Let_def split_def split: option.splits)

lemma manipulator_prepare_drawing_mmap:
  "mmap_heap (fst (snd (manipulator_prepare_drawing h w mmap mpr C dl))) = mmap_heap w"
  by (simp add: manipulator_prepare_drawing_def emit_def Let_def)

lemma manipulator_prepare_drawing_ok:
  "fst (manipulator_prepare_drawing h w mmap mpr C dl) = (wm_manipulator_is_visible h w mpr \<noteq> 0)"
  by (simp add: manipulator_prepare_drawing_def Let_def)

lemma prepare_drawing_manipulators_mmap:
  "mmap_heap (fst (prepare_drawing_manipulators h w mmap C ms dl)) = mmap_heap w"
proof (induction ms arbitrary: w dl)
  case Nil
  then show ?case by simp
next
  case (Cons a ms)
  show ?case
    using Cons.IH manipulator_prepare_drawing_mmap[of h w mmap a C dl]
    by (simp add: split_def)
qed

lemma prepare_drawing_groups_mmap:
  "mmap_heap (fst (prepare_drawing_groups h w mmap C drawstep gs dl)) = mmap_heap w"
proof (induction gs arbitrary: w dl)
  case Nil
  then show ?case by simp
next
  case (Cons g gs)
  show ?case
    by (simp add: Cons.IH split_def Let_def prepare_drawing_manipulators_mmap emit_def)
qed

lemma prepare_drawing_modal_only:
  assumes "modal_only_path w mmap mpr_modal"
  shows "update_flag (mmap_heap (fst (manipulatormap_prepare_drawing h w (Some mmap) C [] drawstep)) mmap) =
           (if wm_manipulator_is_visible h w mpr_modal = 0
            then update_flag (mmap_heap w mmap) else 0) \<and>
         groups (mmap_heap (fst (manipulatormap_prepare_drawing h w (Some mmap) C [] drawstep)) mmap) =
           groups (mmap_heap w mmap)"
  using assms manipulator_prepare_drawing_mmap[of h w mmap mpr_modal C "[]"]
    manipulator_prepare_drawing_ok[of h w mmap mpr_modal C "[]"]
  by (simp add: manipulatormap_prepare_drawing_def modal_only_path_def split_def
        manipulatormap_tag_updated_def mmap_update_def)

lemma prepare_drawing_full:
  assumes "groups (mmap_heap w mmap) \<noteq> []" and "\<forall>a. \<not> modal_only_path w mmap a"
  shows "update_flag (mmap_heap (fst (manipulatormap_prepare_drawing h w (Some mmap) C [] drawstep)) mmap) = 0"
  using assms
  by (auto simp: manipulatormap_prepare_drawing_def modal_only_path_def split_def
        manipulatormap_tag_updated_def mmap_update_def split: option.splits)

lemma prepare_drawing_groups_kept:
  "groups (mmap_heap (fst (manipulatormap_prepare_drawing h w mmap C dl drawstep)) m) =
   groups (mmap_heap w m)"
  by (simp add: manipulatormap_prepare_drawing_def split_def manipulatormap_tag_updated_def
        mmap_update_def manipulator_prepare_drawing_mmap prepare_drawing_groups_mmap
        split: option.splits)

lemma draw_returns:
  "WM_manipulatormap_draw h w mmap C drawstep =
     Inr (fst (manipulators_draw_list h (fst (manipulatormap_prepare_drawing h w mmap C [] drawstep))
                 mmap C (snd (manipulatormap_prepare_drawing h w mmap C [] drawstep))))"
proof -
  let ?p = "manipulatormap_prepare_drawing h w mmap C [] drawstep"
  have e: "(case mmap of None \<Rightarrow> True | Some m \<Rightarrow> groups (mmap_heap (fst ?p) m) = []) \<Longrightarrow> snd ?p = []"
    unfolding prepare_drawing_groups_kept
    by (auto simp: manipulatormap_prepare_drawing_def split: option.splits)
  have "snd (manipulators_draw_list h (fst ?p) mmap C (snd ?p)) = []"
    using manipulators_draw_list_drained[of h "fst ?p" mmap C "snd ?p"] e by auto
  then show ?thesis
    by (simp add: WM_manipulatormap_draw_def split_def)
qed

text \<open>
  C2, as amended. The per-frame draw entry point always returns (its draw list is empty
  at the end). On the modal-only path it clears the refresh flag of the map exactly when
  the modal manipulator is visible, and leaves the flag as it was when the modal
  manipulator is not visible. After a full traversal of the groups the flag is clear.
\<close>

theorem draw_refresh_flag:
  "(modal_only_path w mmap mpr_modal \<longrightarrow>
      update_flag_after_draw h w mmap C drawstep =
        Inr (if wm_manipulator_is_visible h w mpr_modal = 0
             then update_flag (mmap_heap w mmap) else 0)) \<and>
   (groups (mmap_heap w mmap) \<noteq> [] \<and> (\<forall>a. \<not> modal_only_path w mmap a) \<longrightarrow>
      update_flag_after_draw h w mmap C drawstep = Inr 0)"
  by (simp add: update_flag_after_draw_def draw_returns manipulators_draw_list_mmap
        prepare_drawing_modal_only prepare_drawing_full)

lemma ex_modal_mmap:
  "mmap_heap ex_modal 0 =
     \<lparr>groups = [0, 1], update_flag = MANIPULATORMAP_REFRESH, highlight = None,
      modal = Some 1, selected = None, selected_len = 0\<rparr>"
  by (simp add: ex_modal_def wm_manipulatormap_modal_set_def modal_set_invoke_def
        modal_set_activated_def ex_host_def ex_world_def ex_mpr_def ex_type_def
        mpr_update_def mmap_update_def emit_def Let_def)

lemma ex_modal_path: "modal_only_path ex_modal 0 1"
  by (simp add: modal_only_path_def ex_modal_mmap)
     (simp add: ex_modal_def wm_manipulatormap_modal_set_def modal_set_invoke_def
        modal_set_activated_def ex_host_def ex_world_def ex_mpr_def ex_type_def
        mpr_update_def mmap_update_def emit_def Let_def
        WM_MANIPULATORGROUPTYPE_SELECT_def WM_MANIPULATORGROUPTYPE_DRAW_MODAL_ALL_def)

lemma ex_world_no_modal_path: "\<forall>a. \<not> modal_only_path ex_world 0 a"
  by (simp add: modal_only_path_def ex_world_def)

lemma REFRESH_nonzero: "MANIPULATORMAP_REFRESH \<noteq> 0"
  by (simp add: MANIPULATORMAP_REFRESH_def)

text \<open>
  C2, as stated, fails: a refresh is pending on a map whose manipulator 1 is modal and
  visible, its group type does not ask to draw all while modal, and the draw entry point
  returns with the refresh flag cleared.
\<close>

theorem draw_modal_only_clears_refresh:
  "modal_only_path ex_modal 0 1 \<and>
   update_flag (mmap_heap ex_modal 0) = MANIPULATORMAP_REFRESH \<and>
   MANIPULATORMAP_REFRESH \<noteq> 0 \<and>
   update_flag_after_draw ex_host ex_modal 0 ex_context 0 = Inr 0"
proof -
  have v: "wm_manipulator_is_visible ex_host ex_modal 1 \<noteq> 0"
    by (simp add: ex_host_def)
  have "update_flag_after_draw ex_host ex_modal 0 ex_context 0 = Inr 0"
    using prepare_drawing_modal_only[OF ex_modal_path, of ex_host ex_context 0] v
    by (simp add: update_flag_after_draw_def draw_returns manipulators_draw_list_mmap)
  then show ?thesis
    using ex_modal_path REFRESH_nonzero by (simp add: ex_modal_mmap)
qed

theorem draw_refresh_flag_witness:
  "modal_only_path ex_modal 0 1 \<and>
   update_flag (mmap_heap ex_modal 0) = MANIPULATORMAP_REFRESH \<and>
   wm_manipulator_is_visible ex_host ex_modal 1 = 3 \<and>
   update_flag_after_draw ex_host ex_modal 0 ex_context 0 = Inr 0 \<and>
   wm_manipulator_is_visible ex_host_blind ex_modal 1 = 0 \<and>
   update_flag_after_draw ex_host_blind ex_modal 0 ex_context 0 = Inr MANIPULATORMAP_REFRESH \<and>
   groups (mmap_heap ex_world 0) = [0, 1] \<and>
   update_flag (mmap_heap ex_world 0) = MANIPULATORMAP_REFRESH \<and>
   update_flag_after_draw ex_host ex_world 0 ex_context 0 = Inr 0"
proof -
  have v: "wm_manipulator_is_visible ex_host ex_modal 1 = 3"
    by (simp add: ex_host_def)
  have b: "wm_manipulator_is_visible ex_host_blind ex_modal 1 = 0"
    by (simp add: ex_host_blind_def)
  have g: "groups (mmap_heap ex_world 0) = [0, 1]"
    and u: "update_flag (mmap_heap ex_world 0) = MANIPULATORMAP_REFRESH"
    by (simp_all add: ex_world_def)
  have n: "groups (mmap_heap ex_world 0) \<noteq> []"
    using g by simp
  have u1: "update_flag (mmap_heap ex_modal 0) = MANIPULATORMAP_REFRESH"
    by (simp add: ex_modal_mmap)
  show ?thesis
    using draw_refresh_flag[of ex_modal 0 1 ex_host ex_context 0]
      draw_refresh_flag[of ex_modal 0 1 ex_host_blind ex_context 0]
      draw_refresh_flag[of ex_world 0 1 ex_host ex_context 0]
      ex_modal_path ex_world_no_modal_path v b g u n u1
    by simp
qed

section \<open>Deferred type updates\<close>

lemma update_remove_refs_effect:
  "calls (update_remove_refs w i refs) = calls w @ map (Group_unlink i) refs \<and>
   length (manipulatormaptypes (update_remove_refs w i refs)) = length (manipulatormaptypes w) \<and>
   (\<forall>j. j \<noteq> i \<longrightarrow>
      manipulatormaptypes (update_remove_refs w i refs) ! j = manipulatormaptypes w ! j) \<and>
   wm_mmap_type_update_flag (update_remove_refs w i refs) = wm_mmap_type_update_flag w"
proof (induction refs arbitrary: w)
  case Nil
  then show ?case by simp
next
  case (Cons r refs)
  let ?w1 = "WM_manipulatormaptype_group_unlink w i r"
  have "calls ?w1 = calls w @ [Group_unlink i r] \<and>
        length (manipulatormaptypes ?w1) = length (manipulatormaptypes w) \<and>
        (\<forall>j. j \<noteq> i \<longrightarrow> manipulatormaptypes ?w1 ! j = manipulatormaptypes w ! j) \<and>
        wm_mmap_type_update_flag ?w1 = wm_mmap_type_update_flag w"
    by (simp add: WM_manipulatormaptype_group_unlink_def emit_def)
  then show ?case using Cons.IH[of ?w1] by simp
qed

lemma update_remove_types_effect:
  "distinct is \<Longrightarrow>
   calls (update_remove_types w is) = calls w @ concat (map (unlinks_of_type w) is) \<and>
   length (manipulatormaptypes (update_remove_types w is)) = length (manipulatormaptypes w) \<and>
   (\<forall>j. j \<notin> set is \<longrightarrow>
      manipulatormaptypes (update_remove_types w is) ! j = manipulatormaptypes w ! j) \<and>
   wm_mmap_type_update_flag (update_remove_types w is) = wm_mmap_type_update_flag w"
proof (induction "is" arbitrary: w)
  case Nil
  then show ?case by simp
next
  case (Cons i rest)
  let ?t = "manipulatormaptypes w ! i"
  let ?w1 = "w\<lparr>manipulatormaptypes := (manipulatormaptypes w)
               [i := ?t\<lparr>mmt_type_update_flag :=
                        mmt_type_update_flag ?t AND NOT WM_MANIPULATORMAPTYPE_UPDATE_REMOVE\<rparr>]\<rparr>"
  let ?w2 = "if mmt_type_update_flag ?t AND WM_MANIPULATORMAPTYPE_GLOBAL_UPDATE_REMOVE \<noteq> 0
             then update_remove_refs ?w1 i (grouptype_refs ?t) else w"
  have step: "update_remove_types w (i # rest) = update_remove_types ?w2 rest"
    by (simp add: Let_def)
  have w2: "calls ?w2 = calls w @ unlinks_of_type w i \<and>
            length (manipulatormaptypes ?w2) = length (manipulatormaptypes w) \<and>
            (\<forall>j. j \<noteq> i \<longrightarrow> manipulatormaptypes ?w2 ! j = manipulatormaptypes w ! j) \<and>
            wm_mmap_type_update_flag ?w2 = wm_mmap_type_update_flag w"
    using update_remove_refs_effect[of ?w1 i "grouptype_refs ?t"]
    by (simp add: unlinks_of_type_def)
  have d: "distinct rest" and ni: "i \<notin> set rest"
    using Cons.prems by simp_all
  have same: "unlinks_of_type ?w2 j = unlinks_of_type w j" if "j \<in> set rest" for j
  proof -
    have "j \<noteq> i" using that ni by auto
    then have "manipulatormaptypes ?w2 ! j = manipulatormaptypes w ! j" using w2 by blast
    then show ?thesis by (simp only: unlinks_of_type_def)
  qed
  have m: "map (unlinks_of_type ?w2) rest = map (unlinks_of_type w) rest"
    using same by (simp cong: map_cong)
  have ih: "calls (update_remove_types ?w2 rest) = calls ?w2 @ concat (map (unlinks_of_type ?w2) rest) \<and>
            length (manipulatormaptypes (update_remove_types ?w2 rest)) = length (manipulatormaptypes ?w2) \<and>
            (\<forall>j. j \<notin> set rest \<longrightarrow>
               manipulatormaptypes (update_remove_types ?w2 rest) ! j = manipulatormaptypes ?w2 ! j) \<and>
            wm_mmap_type_update_flag (update_remove_types ?w2 rest) = wm_mmap_type_update_flag ?w2"
    by (rule Cons.IH[OF d])
  show ?case
    unfolding step using ih w2 m by (simp del: update_remove_types.simps)
qed

lemma clear_absent_bit:
  fixes x b :: "'a::len word"
  assumes "x AND b = 0"
  shows "x AND NOT b = x"
  using disjoint_bits[OF assms]
  by (intro bit_word_eqI) (auto simp: bit_simps)

lemma update_remove_effect:
  "calls (update_remove w) = calls w @ removal_block_unlinks w \<and>
   wm_mmap_type_update_flag (update_remove w) =
     wm_mmap_type_update_flag w AND NOT WM_MANIPULATORMAPTYPE_GLOBAL_UPDATE_REMOVE"
proof (cases "wm_mmap_type_update_flag w AND WM_MANIPULATORMAPTYPE_GLOBAL_UPDATE_REMOVE = 0")
  case True
  have "wm_mmap_type_update_flag w AND NOT WM_MANIPULATORMAPTYPE_GLOBAL_UPDATE_REMOVE =
        wm_mmap_type_update_flag w"
    using True by (rule clear_absent_bit)
  then show ?thesis
    using True by (simp add: update_remove_def removal_block_unlinks_def)
next
  case False
  then show ?thesis
    using update_remove_types_effect[of "[0 ..< length (manipulatormaptypes w)]" w]
    by (simp add: update_remove_def removal_block_unlinks_def Let_def)
qed

lemma update_init_refs_effect:
  "\<exists>inits. calls (update_init_refs w i refs) = calls w @ inits \<and> list_all is_init_call inits \<and>
     wm_mmap_type_update_flag (update_init_refs w i refs) = wm_mmap_type_update_flag w"
proof (induction refs arbitrary: w)
  case Nil
  then show ?case by simp
next
  case (Cons r refs)
  let ?w1 = "if wgt_type_update_flag (wgt_heap w r) AND WM_MANIPULATORMAPTYPE_KEYMAP_INIT \<noteq> 0
             then emit (wgt_update w r
                          (\<lambda>t. t\<lparr>wgt_type_update_flag :=
                                   wgt_type_update_flag t AND NOT WM_MANIPULATORMAPTYPE_KEYMAP_INIT\<rparr>))
                    (Init_runtime_keymap r)
             else w"
  let ?w2 = "if wgt_type_update_flag (wgt_heap ?w1 r) AND WM_MANIPULATORMAPTYPE_UPDATE_INIT \<noteq> 0
             then emit (wgt_update ?w1 r
                          (\<lambda>t. t\<lparr>wgt_type_update_flag :=
                                   wgt_type_update_flag t AND NOT WM_MANIPULATORMAPTYPE_UPDATE_INIT\<rparr>))
                    (Init_runtime i r)
             else ?w1"
  have step: "update_init_refs w i (r # refs) = update_init_refs ?w2 i refs"
    by (simp add: Let_def)
  have w1: "\<exists>a. calls ?w1 = calls w @ a \<and> list_all is_init_call a \<and>
              wm_mmap_type_update_flag ?w1 = wm_mmap_type_update_flag w"
    by (simp add: emit_def wgt_update_def is_init_call_def)
  have w2: "\<exists>b. calls ?w2 = calls ?w1 @ b \<and> list_all is_init_call b \<and>
              wm_mmap_type_update_flag ?w2 = wm_mmap_type_update_flag ?w1"
    by (simp add: emit_def wgt_update_def is_init_call_def)
  obtain a where a: "calls ?w1 = calls w @ a" "list_all is_init_call a"
      "wm_mmap_type_update_flag ?w1 = wm_mmap_type_update_flag w"
    using w1 by blast
  obtain b where b: "calls ?w2 = calls ?w1 @ b" "list_all is_init_call b"
      "wm_mmap_type_update_flag ?w2 = wm_mmap_type_update_flag ?w1"
    using w2 by blast
  obtain c where c: "calls (update_init_refs ?w2 i refs) = calls ?w2 @ c" "list_all is_init_call c"
      "wm_mmap_type_update_flag (update_init_refs ?w2 i refs) = wm_mmap_type_update_flag ?w2"
    using Cons.IH[of ?w2] by blast
  have "calls (update_init_refs ?w2 i refs) = calls w @ (a @ b @ c)"
    using a(1) b(1) c(1) by simp
  moreover have "list_all is_init_call (a @ b @ c)"
    using a(2) b(2) c(2) by simp
  moreover have "wm_mmap_type_update_flag (update_init_refs ?w2 i refs) = wm_mmap_type_update_flag w"
    using a(3) b(3) c(3) by simp
  ultimately show ?case unfolding step by blast
qed

lemma update_init_types_effect:
  "\<exists>inits. calls (update_init_types w is) = calls w @ inits \<and> list_all is_init_call inits \<and>
     wm_mmap_type_update_flag (update_init_types w is) = wm_mmap_type_update_flag w"
proof (induction "is" arbitrary: w)
  case Nil
  then show ?case by simp
next
  case (Cons i rest)
  let ?t = "manipulatormaptypes w ! i"
  let ?all = "WM_MANIPULATORMAPTYPE_UPDATE_INIT OR WM_MANIPULATORMAPTYPE_KEYMAP_INIT"
  let ?w1 = "w\<lparr>manipulatormaptypes := (manipulatormaptypes w)
               [i := ?t\<lparr>mmt_type_update_flag := mmt_type_update_flag ?t AND NOT ?all\<rparr>]\<rparr>"
  let ?w2 = "if mmt_type_update_flag ?t AND ?all \<noteq> 0
             then update_init_refs ?w1 i (grouptype_refs ?t) else w"
  have step: "update_init_types w (i # rest) = update_init_types ?w2 rest"
    by (simp add: Let_def)
  obtain a where a: "calls ?w2 = calls w @ a" "list_all is_init_call a"
      "wm_mmap_type_update_flag ?w2 = wm_mmap_type_update_flag w"
    using update_init_refs_effect[of ?w1 i "grouptype_refs ?t"] by (cases "mmt_type_update_flag ?t AND ?all \<noteq> 0") auto
  obtain c where c: "calls (update_init_types ?w2 rest) = calls ?w2 @ c" "list_all is_init_call c"
      "wm_mmap_type_update_flag (update_init_types ?w2 rest) = wm_mmap_type_update_flag ?w2"
    using Cons.IH[of ?w2] by blast
  have "calls (update_init_types ?w2 rest) = calls w @ (a @ c)"
    using a(1) c(1) by simp
  moreover have "list_all is_init_call (a @ c)"
    using a(2) c(2) by simp
  moreover have "wm_mmap_type_update_flag (update_init_types ?w2 rest) = wm_mmap_type_update_flag w"
    using a(3) c(3) by simp
  ultimately show ?case unfolding step by blast
qed

lemma update_init_effect:
  "\<exists>inits. calls (update_init w) = calls w @ inits \<and> list_all is_init_call inits \<and>
     wm_mmap_type_update_flag (update_init w) =
       wm_mmap_type_update_flag w AND NOT WM_MANIPULATORMAPTYPE_GLOBAL_UPDATE_INIT"
proof (cases "wm_mmap_type_update_flag w AND WM_MANIPULATORMAPTYPE_GLOBAL_UPDATE_INIT = 0")
  case True
  have "wm_mmap_type_update_flag w AND NOT WM_MANIPULATORMAPTYPE_GLOBAL_UPDATE_INIT =
        wm_mmap_type_update_flag w"
    using True by (rule clear_absent_bit)
  then show ?thesis
    using True by (simp add: update_init_def)
next
  case False
  then show ?thesis
    using update_init_types_effect[of w "[0 ..< length (manipulatormaptypes w)]"]
    by (auto simp: update_init_def Let_def)
qed

lemma removal_block_unlinks_unlinks: "list_all is_unlink_call (removal_block_unlinks w)"
  by (auto simp: removal_block_unlinks_def unlinks_of_type_def is_unlink_call_def list_all_iff)

lemma remove1_all: "foldl (\<lambda>l r. remove1 r l) (xs @ ys) xs = ys"
  by (induction xs) simp_all

lemma update_remove_refs_types:
  "i < length (manipulatormaptypes w) \<Longrightarrow>
   manipulatormaptypes (update_remove_refs w i refs) =
     (manipulatormaptypes w)
       [i := (manipulatormaptypes w ! i)
          \<lparr>grouptype_refs :=
             foldl (\<lambda>l r. remove1 r l) (grouptype_refs (manipulatormaptypes w ! i)) refs\<rparr>]"
proof (induction refs arbitrary: w)
  case Nil
  then show ?case by simp
next
  case (Cons r refs)
  let ?w1 = "WM_manipulatormaptype_group_unlink w i r"
  have t1: "manipulatormaptypes ?w1 =
              (manipulatormaptypes w)
                [i := (manipulatormaptypes w ! i)
                   \<lparr>grouptype_refs := remove1 r (grouptype_refs (manipulatormaptypes w ! i))\<rparr>]"
    by (simp add: WM_manipulatormaptype_group_unlink_def emit_def)
  have l: "i < length (manipulatormaptypes ?w1)"
    using Cons.prems by (simp add: t1)
  show ?case
    using Cons.IH[OF l] Cons.prems by (simp add: t1)
qed

lemma update_remove_types_types:
  "distinct is \<Longrightarrow> \<forall>i \<in> set is. i < length (manipulatormaptypes w) \<Longrightarrow>
   length (manipulatormaptypes (update_remove_types w is)) = length (manipulatormaptypes w) \<and>
   (\<forall>j < length (manipulatormaptypes w).
      manipulatormaptypes (update_remove_types w is) ! j =
        (if j \<in> set is then removed_type (manipulatormaptypes w ! j)
         else manipulatormaptypes w ! j))"
proof (induction "is" arbitrary: w)
  case Nil
  then show ?case by simp
next
  case (Cons i rest)
  let ?ts = "manipulatormaptypes w"
  let ?t = "?ts ! i"
  let ?w1 = "w\<lparr>manipulatormaptypes := ?ts
               [i := ?t\<lparr>mmt_type_update_flag :=
                        mmt_type_update_flag ?t AND NOT WM_MANIPULATORMAPTYPE_UPDATE_REMOVE\<rparr>]\<rparr>"
  let ?w2 = "if mmt_type_update_flag ?t AND WM_MANIPULATORMAPTYPE_GLOBAL_UPDATE_REMOVE \<noteq> 0
             then update_remove_refs ?w1 i (grouptype_refs ?t) else w"
  have step: "update_remove_types w (i # rest) = update_remove_types ?w2 rest"
    by (simp add: Let_def)
  have i: "i < length ?ts" and ni: "i \<notin> set rest" and d: "distinct rest"
    and b: "\<forall>k \<in> set rest. k < length ?ts"
    using Cons.prems by simp_all
  have t2: "manipulatormaptypes ?w2 = ?ts[i := removed_type ?t]"
  proof (cases "mmt_type_update_flag ?t AND WM_MANIPULATORMAPTYPE_GLOBAL_UPDATE_REMOVE \<noteq> 0")
    case True
    have "manipulatormaptypes (update_remove_refs ?w1 i (grouptype_refs ?t)) =
            ?ts[i := ?t\<lparr>mmt_type_update_flag :=
                        mmt_type_update_flag ?t AND NOT WM_MANIPULATORMAPTYPE_UPDATE_REMOVE,
                      grouptype_refs := foldl (\<lambda>l r. remove1 r l) (grouptype_refs ?t) (grouptype_refs ?t)\<rparr>]"
      using update_remove_refs_types[of i ?w1 "grouptype_refs ?t"] i by simp
    then show ?thesis
      using True remove1_all[of "grouptype_refs ?t" "[]"] by (simp add: removed_type_def)
  next
    case False
    then show ?thesis by (simp add: removed_type_def)
  qed
  have l2: "length (manipulatormaptypes ?w2) = length ?ts"
    by (simp only: t2 length_list_update)
  have b2: "\<forall>k \<in> set rest. k < length (manipulatormaptypes ?w2)"
    using b by (simp only: l2)
  have ih: "length (manipulatormaptypes (update_remove_types ?w2 rest)) =
              length (manipulatormaptypes ?w2) \<and>
            (\<forall>j < length (manipulatormaptypes ?w2).
               manipulatormaptypes (update_remove_types ?w2 rest) ! j =
                 (if j \<in> set rest then removed_type (manipulatormaptypes ?w2 ! j)
                  else manipulatormaptypes ?w2 ! j))"
    by (rule Cons.IH[OF d b2])
  show ?case
    unfolding step
  proof (intro conjI allI impI)
    show "length (manipulatormaptypes (update_remove_types ?w2 rest)) = length ?ts"
      using ih l2 by simp
    fix j assume j: "j < length ?ts"
    then have "manipulatormaptypes (update_remove_types ?w2 rest) ! j =
                 (if j \<in> set rest then removed_type (manipulatormaptypes ?w2 ! j)
                  else manipulatormaptypes ?w2 ! j)"
      using ih l2 by simp
    also have "\<dots> = (if j \<in> set (i # rest) then removed_type (?ts ! j) else ?ts ! j)"
      using ni i j by (auto simp: t2 nth_list_update)
    finally show "manipulatormaptypes (update_remove_types ?w2 rest) ! j =
                    (if j \<in> set (i # rest) then removed_type (?ts ! j) else ?ts ! j)" .
  qed
qed

lemma update_remove_types_all:
  assumes "wm_mmap_type_update_flag w AND WM_MANIPULATORMAPTYPE_GLOBAL_UPDATE_REMOVE \<noteq> 0"
  shows "manipulatormaptypes (update_remove w) = map removed_type (manipulatormaptypes w)"
proof -
  let ?n = "length (manipulatormaptypes w)"
  have e: "length (manipulatormaptypes (update_remove_types w [0 ..< ?n])) = ?n \<and>
           (\<forall>j < ?n. manipulatormaptypes (update_remove_types w [0 ..< ?n]) ! j =
              (if j \<in> set [0 ..< ?n] then removed_type (manipulatormaptypes w ! j)
               else manipulatormaptypes w ! j))"
    using update_remove_types_types[of "[0 ..< ?n]" w] by simp
  have "manipulatormaptypes (update_remove_types w [0 ..< ?n]) =
          map removed_type (manipulatormaptypes w)"
    using e by (intro nth_equalityI) simp_all
  then show ?thesis
    using assms by (simp add: update_remove_def Let_def)
qed

lemma map_list_update_same:
  assumes "f x = f (xs ! i)"
  shows "map f (xs[i := x]) = map f xs"
proof (cases "i < length xs")
  case True
  then have "map f (xs[i := x]) = (map f xs)[i := (map f xs) ! i]"
    using assms by (simp add: map_update)
  then show ?thesis by (simp only: list_update_id)
next
  case False
  then show ?thesis by (simp add: list_update_beyond)
qed

lemma update_init_refs_types:
  "manipulatormaptypes (update_init_refs w i refs) = manipulatormaptypes w"
  by (induction refs arbitrary: w) (simp_all add: Let_def emit_def wgt_update_def)

lemma INIT_bits_not_REMOVE:
  "(WM_MANIPULATORMAPTYPE_UPDATE_INIT OR WM_MANIPULATORMAPTYPE_KEYMAP_INIT)
     AND WM_MANIPULATORMAPTYPE_UPDATE_REMOVE = 0"
  by (simp add: WM_MANIPULATORMAPTYPE_UPDATE_INIT_def WM_MANIPULATORMAPTYPE_KEYMAP_INIT_def
        WM_MANIPULATORMAPTYPE_UPDATE_REMOVE_def)

lemma update_init_types_types:
  "map grouptype_refs (manipulatormaptypes (update_init_types w is)) =
     map grouptype_refs (manipulatormaptypes w) \<and>
   map has_remove_bit (manipulatormaptypes (update_init_types w is)) =
     map has_remove_bit (manipulatormaptypes w)"
proof (induction "is" arbitrary: w)
  case Nil
  then show ?case by simp
next
  case (Cons i rest)
  let ?ts = "manipulatormaptypes w"
  let ?t = "?ts ! i"
  let ?all = "WM_MANIPULATORMAPTYPE_UPDATE_INIT OR WM_MANIPULATORMAPTYPE_KEYMAP_INIT"
  let ?t' = "?t\<lparr>mmt_type_update_flag := mmt_type_update_flag ?t AND NOT ?all\<rparr>"
  let ?w1 = "w\<lparr>manipulatormaptypes := ?ts[i := ?t']\<rparr>"
  let ?w2 = "if mmt_type_update_flag ?t AND ?all \<noteq> 0
             then update_init_refs ?w1 i (grouptype_refs ?t) else w"
  have step: "update_init_types w (i # rest) = update_init_types ?w2 rest"
    by (simp add: Let_def)
  have "(mmt_type_update_flag ?t AND NOT ?all) AND WM_MANIPULATORMAPTYPE_UPDATE_REMOVE =
        mmt_type_update_flag ?t AND WM_MANIPULATORMAPTYPE_UPDATE_REMOVE"
    by (rule clear_keeps_other_bit[OF INIT_bits_not_REMOVE])
  then have r: "has_remove_bit ?t' = has_remove_bit ?t"
    unfolding has_remove_bit_def by (simp del: bit.de_Morgan_disj)
  have "map grouptype_refs (?ts[i := ?t']) = map grouptype_refs ?ts"
    by (rule map_list_update_same) simp
  moreover have "map has_remove_bit (?ts[i := ?t']) = map has_remove_bit ?ts"
    by (rule map_list_update_same) (rule r)
  ultimately have "map grouptype_refs (manipulatormaptypes ?w2) = map grouptype_refs ?ts \<and>
                   map has_remove_bit (manipulatormaptypes ?w2) = map has_remove_bit ?ts"
    by (simp add: update_init_refs_types)
  then show ?case
    unfolding step using Cons.IH[of ?w2] by simp
qed

lemma update_init_types_kept:
  "map grouptype_refs (manipulatormaptypes (update_init w)) =
     map grouptype_refs (manipulatormaptypes w) \<and>
   map has_remove_bit (manipulatormaptypes (update_init w)) =
     map has_remove_bit (manipulatormaptypes w)"
  using update_init_types_types[of w "[0 ..< length (manipulatormaptypes w)]"]
  by (simp add: update_init_def Let_def)

lemma removed_type_no_bit: "\<not> has_remove_bit (removed_type t)"
  by (simp add: removed_type_def has_remove_bit_def WM_MANIPULATORMAPTYPE_UPDATE_REMOVE_def
        WM_MANIPULATORMAPTYPE_GLOBAL_UPDATE_REMOVE_def word_bw_assocs)

lemma config_update_removed:
  assumes "\<not> G_background w"
    and "wm_mmap_type_update_flag w AND WM_MANIPULATORMAPTYPE_GLOBAL_UPDATE_REMOVE \<noteq> 0"
  shows "map grouptype_refs (manipulatormaptypes (WM_manipulatorconfig_update w)) =
           map (grouptype_refs \<circ> removed_type) (manipulatormaptypes w) \<and>
         list_all (\<lambda>t. \<not> has_remove_bit t) (manipulatormaptypes (WM_manipulatorconfig_update w))"
proof -
  have nz: "wm_mmap_type_update_flag w \<noteq> 0"
    using assms(2) by auto
  have r: "WM_manipulatorconfig_update w = update_init (update_remove w)"
    using assms(1) nz by (simp add: WM_manipulatorconfig_update_def)
  have t: "manipulatormaptypes (update_remove w) = map removed_type (manipulatormaptypes w)"
    by (rule update_remove_types_all[OF assms(2)])
  have g: "map grouptype_refs (manipulatormaptypes (WM_manipulatorconfig_update w)) =
             map (grouptype_refs \<circ> removed_type) (manipulatormaptypes w)"
    unfolding r using update_init_types_kept[of "update_remove w"] by (simp add: t)
  have "map has_remove_bit (manipulatormaptypes (WM_manipulatorconfig_update w)) =
          map (has_remove_bit \<circ> removed_type) (manipulatormaptypes w)"
    unfolding r using update_init_types_kept[of "update_remove w"] by (simp add: t)
  then have "map has_remove_bit (manipulatormaptypes (WM_manipulatorconfig_update w)) =
          map (\<lambda>t. False) (manipulatormaptypes w)"
    by (simp add: removed_type_no_bit comp_def)
  then have e: "set (map has_remove_bit (manipulatormaptypes (WM_manipulatorconfig_update w))) \<subseteq> {False}"
    by auto
  have "\<not> has_remove_bit t" if "t \<in> set (manipulatormaptypes (WM_manipulatorconfig_update w))" for t
  proof -
    have "has_remove_bit t \<in> set (map has_remove_bit (manipulatormaptypes (WM_manipulatorconfig_update w)))"
      using that by (simp only: set_map) (rule imageI)
    then show ?thesis using e by blast
  qed
  then show ?thesis using g by (simp only: list_all_iff) blast
qed

text \<open>
  The flush of the deferred updates changes nothing when the host runs in the background
  or the global update flag is zero. When it runs, the calls it makes are the unlinks of
  the removal block, over all map types, followed by init calls only (keymap build,
  runtime init), and both global bits are clear at the end. When the global remove bit
  was set, every map type that carried the remove bit ends without refs and no map type
  carries the remove bit any more.
\<close>

lemma config_update_calls:
  "(G_background w \<or> wm_mmap_type_update_flag w = 0 \<longrightarrow> WM_manipulatorconfig_update w = w) \<and>
   (\<not> G_background w \<and> wm_mmap_type_update_flag w \<noteq> 0 \<longrightarrow>
      (\<exists>inits. calls (WM_manipulatorconfig_update w) = calls w @ removal_block_unlinks w @ inits \<and>
               list_all is_init_call inits) \<and>
      wm_mmap_type_update_flag (WM_manipulatorconfig_update w) =
        (wm_mmap_type_update_flag w AND NOT WM_MANIPULATORMAPTYPE_GLOBAL_UPDATE_REMOVE)
          AND NOT WM_MANIPULATORMAPTYPE_GLOBAL_UPDATE_INIT) \<and>
   (\<not> G_background w \<and>
    wm_mmap_type_update_flag w AND WM_MANIPULATORMAPTYPE_GLOBAL_UPDATE_REMOVE \<noteq> 0 \<longrightarrow>
      map grouptype_refs (manipulatormaptypes (WM_manipulatorconfig_update w)) =
        map (grouptype_refs \<circ> removed_type) (manipulatormaptypes w) \<and>
      list_all (\<lambda>t. \<not> has_remove_bit t) (manipulatormaptypes (WM_manipulatorconfig_update w))) \<and>
   list_all is_unlink_call (removal_block_unlinks w)"
proof (intro conjI impI)
  show "WM_manipulatorconfig_update w = w" if "G_background w \<or> wm_mmap_type_update_flag w = 0"
    using that by (auto simp: WM_manipulatorconfig_update_def)
  show "list_all is_unlink_call (removal_block_unlinks w)"
    by (rule removal_block_unlinks_unlinks)
next
  assume a: "\<not> G_background w \<and> wm_mmap_type_update_flag w \<noteq> 0"
  then have r: "WM_manipulatorconfig_update w = update_init (update_remove w)"
    by (simp add: WM_manipulatorconfig_update_def)
  obtain inits where i: "calls (update_init (update_remove w)) = calls (update_remove w) @ inits"
      "list_all is_init_call inits"
      "wm_mmap_type_update_flag (update_init (update_remove w)) =
         wm_mmap_type_update_flag (update_remove w) AND NOT WM_MANIPULATORMAPTYPE_GLOBAL_UPDATE_INIT"
    using update_init_effect[of "update_remove w"] by blast
  show "\<exists>inits. calls (WM_manipulatorconfig_update w) = calls w @ removal_block_unlinks w @ inits \<and>
               list_all is_init_call inits"
    unfolding r using i(1,2) update_remove_effect[of w] by simp
  show "wm_mmap_type_update_flag (WM_manipulatorconfig_update w) =
        (wm_mmap_type_update_flag w AND NOT WM_MANIPULATORMAPTYPE_GLOBAL_UPDATE_REMOVE)
          AND NOT WM_MANIPULATORMAPTYPE_GLOBAL_UPDATE_INIT"
    unfolding r using i(3) update_remove_effect[of w] by simp
next
  assume b: "\<not> G_background w \<and>
    wm_mmap_type_update_flag w AND WM_MANIPULATORMAPTYPE_GLOBAL_UPDATE_REMOVE \<noteq> 0"
  then show "map grouptype_refs (manipulatormaptypes (WM_manipulatorconfig_update w)) =
        map (grouptype_refs \<circ> removed_type) (manipulatormaptypes w)"
    and "list_all (\<lambda>t. \<not> has_remove_bit t) (manipulatormaptypes (WM_manipulatorconfig_update w))"
    using config_update_removed[of w] by simp_all
qed

lemmas ex_registry_defs =
  ex_registry_def WM_manipulatorconfig_update_tag_init_def
  WM_manipulatorconfig_update_tag_remove_def ex_world_def wgt_update_def Let_def
  WM_MANIPULATORMAPTYPE_UPDATE_INIT_def WM_MANIPULATORMAPTYPE_UPDATE_REMOVE_def
  WM_MANIPULATORMAPTYPE_KEYMAP_INIT_def WM_MANIPULATORMAPTYPE_GLOBAL_UPDATE_INIT_def
  WM_MANIPULATORMAPTYPE_GLOBAL_UPDATE_REMOVE_def

lemma ex_registry_flags:
  "\<not> G_background ex_registry \<and> wm_mmap_type_update_flag ex_registry = 3 \<and> calls ex_registry = []"
  by (simp add: ex_registry_defs)

lemma ex_registry_calls:
  "calls (WM_manipulatorconfig_update ex_registry) =
     [Group_unlink 0 5, Group_unlink 0 6, Init_runtime_keymap 5, Init_runtime 1 5]"
  by (simp add: WM_manipulatorconfig_update_def update_init_def update_remove_def
        WM_manipulatormaptype_group_unlink_def emit_def ex_registry_defs upt_rec)

text \<open>
  C8 at a failing input. In the example registry map type 0 holds the group types 5 and
  6, and only group type 5 was tagged for removal from it (and for init in map type 1).
  The unlink of the flagged group-type-refs is the one of group type 5 from map type 0.
  The flush also unlinks group type 6 from map type 0, which was never tagged, and it
  leaves the remove bit of group type 5 set. The init calls come after the unlinks.
\<close>

theorem config_update_unlinks_untagged_ref:
  "\<not> G_background ex_registry \<and> wm_mmap_type_update_flag ex_registry = 3 \<and>
   map grouptype_refs (manipulatormaptypes ex_registry) = [[5, 6], [5]] \<and>
   wgt_type_update_flag (wgt_heap ex_registry 6) = 0 \<and>
   wgt_type_update_flag (wgt_heap ex_registry 5) AND WM_MANIPULATORMAPTYPE_UPDATE_REMOVE \<noteq> 0 \<and>
   flagged_ref_unlinks ex_registry = [Group_unlink 0 5] \<and>
   calls (WM_manipulatorconfig_update ex_registry) =
     [Group_unlink 0 5, Group_unlink 0 6, Init_runtime_keymap 5, Init_runtime 1 5] \<and>
   map grouptype_refs (manipulatormaptypes (WM_manipulatorconfig_update ex_registry)) =
     [[], [5]] \<and>
   wgt_type_update_flag (wgt_heap (WM_manipulatorconfig_update ex_registry) 5)
     AND WM_MANIPULATORMAPTYPE_UPDATE_REMOVE \<noteq> 0"
proof -
  have r0: "map grouptype_refs (manipulatormaptypes ex_registry) = [[5, 6], [5]]"
    by (simp add: ex_registry_defs)
  have t6: "wgt_type_update_flag (wgt_heap ex_registry 6) = 0"
    by (simp add: ex_registry_defs)
  have t5: "wgt_type_update_flag (wgt_heap ex_registry 5) AND WM_MANIPULATORMAPTYPE_UPDATE_REMOVE \<noteq> 0"
    by (simp add: ex_registry_defs)
  have f: "flagged_ref_unlinks ex_registry = [Group_unlink 0 5]"
    by (simp add: flagged_ref_unlinks_def ex_registry_defs upt_rec)
  have r1: "map grouptype_refs (manipulatormaptypes (WM_manipulatorconfig_update ex_registry)) =
              [[], [5]]"
    by (simp add: WM_manipulatorconfig_update_def update_init_def update_remove_def
          WM_manipulatormaptype_group_unlink_def emit_def ex_registry_defs upt_rec)
  have t5': "wgt_type_update_flag (wgt_heap (WM_manipulatorconfig_update ex_registry) 5)
               AND WM_MANIPULATORMAPTYPE_UPDATE_REMOVE \<noteq> 0"
    by (simp add: WM_manipulatorconfig_update_def update_init_def update_remove_def
          WM_manipulatormaptype_group_unlink_def emit_def ex_registry_defs upt_rec)
  show ?thesis
    using r0 t6 t5 f r1 t5' ex_registry_flags ex_registry_calls by blast
qed

section \<open>Hit test\<close>

lemma hotspot_first_eq: "float_mul (float_round (1 / 2)) (float_round 14) = hotspot_first"
  unfolding float_mul_def hotspot_first_def by code_simp

lemma hotspot_second_eq: "float_mul (float_round (2 / 10)) (float_round 14) = hotspot_second"
  unfolding float_mul_def hotspot_second_def by code_simp

lemma emit_calls_update: "emit (w\<lparr>calls := c\<rparr>) x = w\<lparr>calls := c @ [x]\<rparr>"
  by (simp add: emit_def)




lemma find_intersected_3d_unfold:
  "manipulator_find_intersected_3d h w C co vis =
     (case manipulator_find_intersected_3d_intern h (emit w View3d_needs_opengl) vis C co
             hotspot_first of
        Inl e \<Rightarrow> Inl e
      | Inr (ret, w1) \<Rightarrow>
          if ret \<noteq> - 1 then
            (case manipulator_find_intersected_3d_intern h w1 vis C co hotspot_second of
               Inl e \<Rightarrow> Inl e
             | Inr (retsec, w2) \<Rightarrow> decode_hit vis (if retsec \<noteq> - 1 then retsec else ret) w2)
          else Inr ((None, 0), w1))"
  unfolding manipulator_find_intersected_3d_def Let_def hotspot_first_eq hotspot_second_eq
    decode_hit_def
  by (simp split: sum.splits prod.splits)


lemmas ex_pick_defs =
  manipulator_find_intersected_3d_intern_def manipulator_draw_select_3D_loop_def
  ex_host_passes_def ex_host_hit_def ex_host_def ex_world_3d_first_def mmap_update_def
  ex_world_def ex_mpr_def ex_type_def ex_context_def emit_def Let_def
  WM_MANIPULATORGROUPTYPE_SELECT_def WM_MANIPULATORGROUPTYPE_3D_def
  WM_MANIPULATORGROUPTYPE_DEPTH_3D_def

lemma ex_rect_first: "intern_rect (100, 100) hotspot_first = Inr (Rcti 93 107 93 107)"
  unfolding hotspot_first_def by code_simp

lemma ex_rect_second: "intern_rect (100, 100) hotspot_second = Inr (Rcti 97 102 97 102)"
  unfolding hotspot_second_def by code_simp


lemma ex_pick_first:
  "manipulator_find_intersected_3d_intern ex_host_hit (emit ex_world_3d_first View3d_needs_opengl)
     [4, 3] ex_context (100, 100) hotspot_first =
   Inr (256, ex_world_3d_first\<lparr>calls := View3d_needs_opengl # ex_first_pick_calls\<rparr>)"
  by (simp add: ex_pick_defs ex_rect_first ex_first_pick_calls_def)

lemma ex_pick_second:
  "manipulator_find_intersected_3d_intern ex_host_hit
     (ex_world_3d_first\<lparr>calls := View3d_needs_opengl # ex_first_pick_calls\<rparr>)
     [4, 3] ex_context (100, 100) hotspot_second =
   Inr (256, ex_world_3d_first\<lparr>calls :=
               View3d_needs_opengl # ex_first_pick_calls @ ex_second_pick_calls\<rparr>)"
  by (simp add: ex_pick_defs ex_rect_second ex_first_pick_calls_def ex_second_pick_calls_def)

lemma ex_pick_none:
  "manipulator_find_intersected_3d_intern ex_host (emit ex_world_3d_first View3d_needs_opengl)
     [4, 3] ex_context (100, 100) hotspot_first =
   Inr (- 1, ex_world_3d_first\<lparr>calls := View3d_needs_opengl # ex_first_pick_calls\<rparr>)"
  by (simp add: ex_pick_defs ex_rect_first ex_first_pick_calls_def)


lemma ex_decode: "decode_hit [4, 3] 256 w = Inr ((Some 3, 0), w)"
  by (simp add: decode_hit_def BLI_findlink_def drop_bit_eq_div)




text \<open>
  C1 at a failing input. Map 8 holds a visible 3D group with candidates before a visible
  2D group whose intersection test hits manipulator 2 (part 5). The loop over the groups
  leaves with that hit, and the 3D pick that follows overwrites it: with a pick that
  finds nothing the function returns no manipulator, with a pick that hits it returns
  the 3D manipulator 3.
\<close>

theorem highlight_find_2d_hit_overwritten:
  "wm_manipulatorgroup_is_visible ex_host ex_world_3d_first 0 ex_context \<and>
   wm_manipulatorgroup_find_intersected_mainpulator ex_host ex_world_3d_first 0 ex_context
     ex_event 0 = (Some 2, 5) \<and>
   highlight_find_groups ex_host ex_world_3d_first ex_context ex_event
     (groups (mmap_heap ex_world_3d_first 8)) [] 0 = (Some 2, [4, 3], 5) \<and>
   map_sum id fst
     (wm_manipulatormap_highlight_find ex_host ex_world_3d_first 8 ex_context ex_event 0) =
     Inr (None, 0) \<and>
   map_sum id fst
     (wm_manipulatormap_highlight_find ex_host_hit ex_world_3d_first 8 ex_context ex_event 0) =
     Inr (Some 3, 0)"
proof -
  have g: "highlight_find_groups ex_host ex_world_3d_first ex_context ex_event
             (groups (mmap_heap ex_world_3d_first 8)) [] 0 = (Some 2, [4, 3], 5)"
    by (simp add: ex_world_3d_first_def mmap_update_def ex_world_def ex_host_def
          WM_MANIPULATORGROUPTYPE_SELECT_def WM_MANIPULATORGROUPTYPE_3D_def)
  have g': "highlight_find_groups ex_host_hit ex_world_3d_first ex_context ex_event
             (groups (mmap_heap ex_world_3d_first 8)) [] 0 = (Some 2, [4, 3], 5)"
    by (simp add: ex_world_3d_first_def mmap_update_def ex_world_def ex_host_hit_def ex_host_def
          WM_MANIPULATORGROUPTYPE_SELECT_def WM_MANIPULATORGROUPTYPE_3D_def)
  have m: "mval ex_event = (100, 100)"
    by (simp add: ex_event_def)
  have n: "map_sum id fst
     (wm_manipulatormap_highlight_find ex_host ex_world_3d_first 8 ex_context ex_event 0) =
     Inr (None, 0)"
    by (simp add: wm_manipulatormap_highlight_find_def g m find_intersected_3d_unfold ex_pick_none)
  have h: "map_sum id fst
     (wm_manipulatormap_highlight_find ex_host_hit ex_world_3d_first 8 ex_context ex_event 0) =
     Inr (Some 3, 0)"
    by (simp add: wm_manipulatormap_highlight_find_def g' m find_intersected_3d_unfold
          ex_pick_first ex_pick_second ex_decode)
  show ?thesis
    using g n h by (simp add: ex_host_def)
qed

end
